theory Spec2Isabelle
  imports Main
begin

section \<open>Python values and formatting\<close>

text \<open>
  The helpers of \<^verbatim>\<open>cookbook/include/utils_onnx.py\<close> build ONNX graphs through the
  object model of the graph library (graph, nodes, tensors). Python raises where HOL
  would return an unspecified value, so every raise is a value of \<open>py_error\<close>.
\<close>

datatype py_error = AssertionError | IndexError | TypeError | CycleError

text \<open>
  Plain Python data as it reaches the helpers: shape entries (\<open>"B"\<close>, \<open>28\<close>, \<open>-1\<close>) and
  attribute values (\<open>[5, 5]\<close>, \<open>1\<close>).
\<close>

datatype pyval = PyInt int | PyStr string | PyList "pyval list"

text \<open>Element types (\<open>np.float32\<close>, \<open>np.int64\<close>, ...), compared as \<open>np.dtype\<close> compares them.\<close>

datatype np_dtype = Float16 | Float32 | Float64 | Int8 | Int32 | Int64 | Bool8

text \<open>
  \<open>f"{number}"\<close> on an \<open>int\<close>: the decimal digits, most significant first, with a
  leading minus sign for a negative number.
\<close>

definition digit_char :: "nat \<Rightarrow> char" where
  "digit_char d = ''0123456789'' ! d"

fun str_nat :: "nat \<Rightarrow> string" where
  "str_nat n = (if n < 10 then [digit_char n] else str_nat (n div 10) @ [digit_char (n mod 10)])"

declare str_nat.simps [simp del]

definition str_int :: "int \<Rightarrow> string" where
  "str_int i = (if i < 0 then CHR ''-'' # str_nat (nat (- i)) else str_nat (nat i))"

text \<open>\<open>xs[i]\<close> for a Python list: a negative index counts from the end, out of range raises.\<close>

definition py_index :: "'a list \<Rightarrow> int \<Rightarrow> py_error + 'a" where
  "py_index xs i =
     (if 0 \<le> i \<and> i < int (length xs) then Inr (xs ! nat i)
      else if i < 0 \<and> - int (length xs) \<le> i then Inr (xs ! nat (int (length xs) + i))
      else Inl IndexError)"

section \<open>The object model of the graph library\<close>

text \<open>
  Modelled from the spec: the graph, node and tensor classes of the external graph
  library (\<open>gs.Graph\<close>, \<open>gs.Node\<close>, \<open>gs.Variable\<close>, \<open>gs.Constant\<close>), which the repository
  imports and does not contain. A node has an operation type, a name, ordered inputs and
  outputs and a mapping of attributes; a tensor has a name, an element type and a shape,
  is produced by nodes and consumed by nodes; a graph has ordered nodes, inputs and
  outputs.

  Tensors and nodes are objects that the graph, the nodes and the caller share by
  reference, and \<open>mark_graph_output\<close> assigns to a field of a shared tensor. So both live
  in a store, addressed by the order of their creation, and every list of the program
  holds addresses. A tensor knows its producers (\<open>inputs\<close>) and its consumers
  (\<open>outputs\<close>); a node knows its input and output tensors.
\<close>

record tensor =
  t_name :: string
  t_dtype :: np_dtype
  t_shape :: pyval
  t_is_constant :: bool
  t_inputs :: "nat list"
  t_outputs :: "nat list"

record node =
  n_op :: string
  n_name :: string
  n_attrs :: "(string \<times> pyval) list"
  n_inputs :: "nat list"
  n_outputs :: "nat list"

text \<open>
  The store and the one graph under construction: \<open>g_nodes\<close>, \<open>g_inputs\<close>, \<open>g_outputs\<close> are
  \<open>graph.nodes\<close>, \<open>graph.inputs\<close>, \<open>graph.outputs\<close>.
\<close>

record gs_state =
  tensor_heap :: "nat \<Rightarrow> tensor"
  next_tensor :: nat
  node_heap :: "nat \<Rightarrow> node"
  next_node :: nat
  g_nodes :: "nat list"
  g_inputs :: "nat list"
  g_outputs :: "nat list"

text \<open>
  \<open>gs.Graph(nodes=[], inputs=[], outputs=[])\<close> in an empty store. An address at which
  nothing was created yet holds an empty object; no function reads one.
\<close>

definition empty_tensor :: tensor where
  "empty_tensor = \<lparr>t_name = [], t_dtype = Float32, t_shape = PyList [], t_is_constant = False,
     t_inputs = [], t_outputs = []\<rparr>"

definition empty_node :: node where
  "empty_node = \<lparr>n_op = [], n_name = [], n_attrs = [], n_inputs = [], n_outputs = []\<rparr>"

definition gs_Graph :: gs_state where
  "gs_Graph = \<lparr>tensor_heap = (\<lambda>_. empty_tensor), next_tensor = 0,
     node_heap = (\<lambda>_. empty_node), next_node = 0,
     g_nodes = [], g_inputs = [], g_outputs = []\<rparr>"

text \<open>
  \<open>gs.Variable(name, dtype, shape)\<close> and \<open>gs.Constant(name, values)\<close> create a tensor with
  no producer and no consumer. Of a constant only the element type and the shape of its
  array are kept; the builders fill the arrays with random numbers.
\<close>

definition new_tensor :: "gs_state \<Rightarrow> tensor \<Rightarrow> nat \<times> gs_state" where
  "new_tensor st t =
     (next_tensor st,
      st\<lparr>tensor_heap := (tensor_heap st)(next_tensor st := t), next_tensor := Suc (next_tensor st)\<rparr>)"

definition gs_Variable :: "gs_state \<Rightarrow> string \<Rightarrow> np_dtype \<Rightarrow> pyval \<Rightarrow> nat \<times> gs_state" where
  "gs_Variable st name dtype shape =
     new_tensor st \<lparr>t_name = name, t_dtype = dtype, t_shape = shape, t_is_constant = False,
       t_inputs = [], t_outputs = []\<rparr>"

definition gs_Constant :: "gs_state \<Rightarrow> string \<Rightarrow> np_dtype \<Rightarrow> pyval \<Rightarrow> nat \<times> gs_state" where
  "gs_Constant st name dtype shape =
     new_tensor st \<lparr>t_name = name, t_dtype = dtype, t_shape = shape, t_is_constant = True,
       t_inputs = [], t_outputs = []\<rparr>"

text \<open>
  \<open>gs.Node(op, name, inputs=..., outputs=..., attrs=...)\<close> creates the node and keeps both
  directions in step: the new node becomes a consumer of each of its inputs and a
  producer of each of its outputs.
\<close>

definition add_consumer :: "nat \<Rightarrow> nat \<Rightarrow> gs_state \<Rightarrow> gs_state" where
  "add_consumer nd t st =
     st\<lparr>tensor_heap := (tensor_heap st)
       (t := (tensor_heap st t)\<lparr>t_outputs := t_outputs (tensor_heap st t) @ [nd]\<rparr>)\<rparr>"

definition add_producer :: "nat \<Rightarrow> nat \<Rightarrow> gs_state \<Rightarrow> gs_state" where
  "add_producer nd t st =
     st\<lparr>tensor_heap := (tensor_heap st)
       (t := (tensor_heap st t)\<lparr>t_inputs := t_inputs (tensor_heap st t) @ [nd]\<rparr>)\<rparr>"

definition gs_Node ::
  "gs_state \<Rightarrow> string \<Rightarrow> string \<Rightarrow> nat list \<Rightarrow> nat list \<Rightarrow> (string \<times> pyval) list \<Rightarrow> nat \<times> gs_state" where
  "gs_Node st op name ins outs attrs =
     (let nd = next_node st;
          st1 = st\<lparr>node_heap := (node_heap st)
                  (nd := \<lparr>n_op = op, n_name = name, n_attrs = attrs, n_inputs = ins, n_outputs = outs\<rparr>),
                next_node := Suc nd\<rparr>;
          st2 = fold (add_consumer nd) ins st1;
          st3 = fold (add_producer nd) outs st2
      in (nd, st3))"

section \<open>add_node\<close>

text \<open>
  \<open>datatype_list\<close> is one element type or a list of them
  (\<open>Union[np.dtype, List[np.dtype]]\<close>); \<open>isinstance(datatype_list, list)\<close> tells them apart.
  \<open>shape_list\<close> is a Python list in both cases: one shape, or a list of shapes.
\<close>

datatype dtype_arg = DType np_dtype | DTypeList "np_dtype list"

text \<open>What \<open>add_node\<close> returns first: the one tensor itself, or the list of tensors.\<close>

datatype outputs = OneOutput nat | ManyOutputs "nat list"

fun outputs_list :: "outputs \<Rightarrow> nat list" where
  "outputs_list (OneOutput t) = [t]"
| "outputs_list (ManyOutputs ts) = ts"

text \<open>The two names of lines 60 and 64 to 66.\<close>

definition node_name_of :: "string \<Rightarrow> int \<Rightarrow> string \<Rightarrow> string" where
  "node_name_of prefix number node_type = prefix @ ''-N-'' @ str_int number @ ''-'' @ node_type"

definition tensor_name_of :: "string \<Rightarrow> int \<Rightarrow> string \<Rightarrow> string \<Rightarrow> nat \<Rightarrow> string" where
  "tensor_name_of prefix number node_type suffix i =
     (let tensor_name = prefix @ ''-V-'' @ str_int number @ ''-'' @ node_type @ ''-'' @ str_int (int i)
      in if length suffix > 0 then tensor_name @ ''-'' @ suffix else tensor_name)"

text \<open>
  The loop of lines 63 to 68 over \<open>range(n_output)\<close>: one variable per position,
  appended to \<open>output_list\<close>. The positions are within both lists, by the assertion or
  because both lists were just made of one element.
\<close>

fun add_node_loop ::
  "string \<Rightarrow> int \<Rightarrow> string \<Rightarrow> string \<Rightarrow> np_dtype list \<Rightarrow> pyval list \<Rightarrow>
   nat list \<Rightarrow> nat list \<Rightarrow> gs_state \<Rightarrow> nat list \<times> gs_state" where
  "add_node_loop prefix number node_type suffix dts shs [] output_list st = (output_list, st)"
| "add_node_loop prefix number node_type suffix dts shs (i # is) output_list st =
     (let (tensor, st') =
            gs_Variable st (tensor_name_of prefix number node_type suffix i) (dts ! i) (shs ! i)
      in add_node_loop prefix number node_type suffix dts shs is (output_list @ [tensor]) st')"

text \<open>
  Lines 60 to 75, once both lists are lists of the same length: the names, the
  variables, the node, the append to \<open>graph.nodes\<close>, and the result with the next
  counter. A list of one tensor is returned as that tensor.
\<close>

definition add_node_body ::
  "gs_state \<Rightarrow> string \<Rightarrow> nat list \<Rightarrow> (string \<times> pyval) list \<Rightarrow> np_dtype list \<Rightarrow> pyval list \<Rightarrow>
   string \<Rightarrow> string \<Rightarrow> int \<Rightarrow> (outputs \<times> int) \<times> gs_state" where
  "add_node_body graph node_type input_list attribution dts shs prefix suffix number =
     (let node_name = node_name_of prefix number node_type;
          n_output = length dts;
          (output_list, st1) =
            add_node_loop prefix number node_type suffix dts shs [0..<n_output] [] graph;
          (nd, st2) = gs_Node st1 node_type node_name input_list output_list attribution;
          st3 = st2\<lparr>g_nodes := g_nodes st2 @ [nd]\<rparr>
      in ((if length output_list = 1 then OneOutput (output_list ! 0)
           else ManyOutputs output_list,
           number + 1), st3))"

text \<open>
  Lines 54 to 58 come first: the assertion on the two lengths in the case of a list, the
  wrapping of both arguments into lists of one element otherwise. A failed assertion
  raises before anything is created.
\<close>

definition add_node ::
  "gs_state \<Rightarrow> string \<Rightarrow> nat list \<Rightarrow> (string \<times> pyval) list \<Rightarrow> dtype_arg \<Rightarrow> pyval list \<Rightarrow>
   string \<Rightarrow> string \<Rightarrow> int \<Rightarrow> (py_error + outputs \<times> int) \<times> gs_state" where
  "add_node graph node_type input_list attribution datatype_list shape_list prefix suffix number =
     (case datatype_list of
        DTypeList dts \<Rightarrow>
          if length dts = length shape_list
          then (let (r, st) = add_node_body graph node_type input_list attribution dts shape_list
                                prefix suffix number
                in (Inr r, st))
          else (Inl AssertionError, graph)
      | DType dt \<Rightarrow>
          (let (r, st) = add_node_body graph node_type input_list attribution [dt] [PyList shape_list]
                           prefix suffix number
           in (Inr r, st)))"

section \<open>mark_graph_output\<close>

text \<open>
  Lines 99 to 102, \<open>for index in lMarkOutput\<close>: the selected output of the node is
  appended to \<open>graph.outputs\<close> and then its element type is overwritten in the tensor
  object itself, which the node, the graph and every consumer share. The subscript is
  evaluated first, so an index out of range raises with nothing appended for it. The
  \<open>print\<close> calls are not modelled.
\<close>

definition set_dtype :: "nat \<Rightarrow> np_dtype \<Rightarrow> gs_state \<Rightarrow> gs_state" where
  "set_dtype t dt st = st\<lparr>tensor_heap := (tensor_heap st)(t := (tensor_heap st t)\<lparr>t_dtype := dt\<rparr>)\<rparr>"

fun mark_output_loop :: "nat \<Rightarrow> int list \<Rightarrow> gs_state \<Rightarrow> (py_error + unit) \<times> gs_state" where
  "mark_output_loop nd [] st = (Inr (), st)"
| "mark_output_loop nd (index # rest) st =
     (case py_index (n_outputs (node_heap st nd)) index of
        Inl e \<Rightarrow> (Inl e, st)
      | Inr t \<Rightarrow>
          mark_output_loop nd rest (set_dtype t Float32 (st\<lparr>g_outputs := g_outputs st @ [t]\<rparr>)))"

text \<open>Lines 106 to 108, \<open>for index in lMarkInput\<close>: no element type is touched.\<close>

fun mark_input_loop :: "nat \<Rightarrow> int list \<Rightarrow> gs_state \<Rightarrow> (py_error + unit) \<times> gs_state" where
  "mark_input_loop nd [] st = (Inr (), st)"
| "mark_input_loop nd (index # rest) st =
     (case py_index (n_inputs (node_heap st nd)) index of
        Inl e \<Rightarrow> (Inl e, st)
      | Inr t \<Rightarrow> mark_input_loop nd rest (st\<lparr>g_outputs := g_outputs st @ [t]\<rparr>))"

text \<open>
  \<open>lMarkOutput is None or len(lNode) > 1\<close> decides whether the index list is replaced by
  \<open>range(len(...))\<close>; the replacement is an assignment to the parameter, so it is still
  in force at the next matching node.
\<close>

definition select_indices :: "int list option \<Rightarrow> string list \<Rightarrow> nat \<Rightarrow> int list" where
  "select_indices lMark lNode n =
     (case lMark of
        None \<Rightarrow> map int [0..<n]
      | Some l \<Rightarrow> if length lNode > 1 then map int [0..<n] else l)"

text \<open>Lines 94 to 108, \<open>for node in graph.nodes\<close>.\<close>

fun mark_nodes_loop ::
  "string list \<Rightarrow> bool \<Rightarrow> bool \<Rightarrow> nat list \<Rightarrow> int list option \<Rightarrow> int list option \<Rightarrow> gs_state \<Rightarrow>
   (py_error + unit) \<times> gs_state" where
  "mark_nodes_loop lNode bMarkOutput bMarkInput [] lMarkOutput lMarkInput st = (Inr (), st)"
| "mark_nodes_loop lNode bMarkOutput bMarkInput (nd # rest) lMarkOutput lMarkInput st =
     (if n_name (node_heap st nd) \<in> set lNode then
        (let lMarkOutput' =
               (if bMarkOutput
                then Some (select_indices lMarkOutput lNode (length (n_outputs (node_heap st nd))))
                else lMarkOutput);
             (r1, st1) =
               (if bMarkOutput
                then mark_output_loop nd
                       (select_indices lMarkOutput lNode (length (n_outputs (node_heap st nd)))) st
                else (Inr (), st))
         in case r1 of
              Inl e \<Rightarrow> (Inl e, st1)
            | Inr _ \<Rightarrow>
                (let lMarkInput' =
                       (if bMarkInput
                        then Some (select_indices lMarkInput lNode (length (n_inputs (node_heap st1 nd))))
                        else lMarkInput);
                     (r2, st2) =
                       (if bMarkInput
                        then mark_input_loop nd
                               (select_indices lMarkInput lNode (length (n_inputs (node_heap st1 nd)))) st1
                        else (Inr (), st1))
                 in case r2 of
                      Inl e \<Rightarrow> (Inl e, st2)
                    | Inr _ \<Rightarrow>
                        mark_nodes_loop lNode bMarkOutput bMarkInput rest lMarkOutput' lMarkInput' st2))
      else mark_nodes_loop lNode bMarkOutput bMarkInput rest lMarkOutput lMarkInput st)"

text \<open>
  Modelled from the spec: \<open>graph.cleanup().toposort()\<close>, two methods of the external
  graph library, whose code is not part of the repository. Cleanup removes the nodes
  that are unreachable from the declared outputs, the topological sort reorders the node
  list into dependency order. A node is kept when one of its outputs is a declared
  output or an input of a kept node; the sort moves forward, round by round, the nodes
  that depend on no node still waiting, keeps their order, and fails when nodes are left
  after as many rounds as there are nodes (a cycle). Both touch the node list only.
\<close>

definition node_produces :: "gs_state \<Rightarrow> nat list \<Rightarrow> nat \<Rightarrow> bool" where
  "node_produces st ts nd = list_ex (\<lambda>t. t \<in> set ts) (n_outputs (node_heap st nd))"

primrec used_tensors :: "nat \<Rightarrow> gs_state \<Rightarrow> nat list \<Rightarrow> nat list" where
  "used_tensors 0 st ts = ts"
| "used_tensors (Suc k) st ts =
     used_tensors k st
       (remdups (ts @ concat (map (\<lambda>nd. n_inputs (node_heap st nd))
                                (filter (node_produces st ts) (g_nodes st)))))"

definition cleanup :: "gs_state \<Rightarrow> gs_state" where
  "cleanup st =
     st\<lparr>g_nodes :=
          filter (node_produces st (used_tensors (length (g_nodes st)) st (g_outputs st)))
            (g_nodes st)\<rparr>"

definition depends_on :: "gs_state \<Rightarrow> nat list \<Rightarrow> nat \<Rightarrow> bool" where
  "depends_on st waiting nd =
     list_ex (\<lambda>nd'. node_produces st (n_inputs (node_heap st nd)) nd') waiting"

primrec toposort_rounds :: "nat \<Rightarrow> gs_state \<Rightarrow> nat list \<Rightarrow> nat list \<Rightarrow> nat list option" where
  "toposort_rounds 0 st waiting sorted_nodes = (if waiting = [] then Some sorted_nodes else None)"
| "toposort_rounds (Suc k) st waiting sorted_nodes =
     toposort_rounds k st (filter (depends_on st waiting) waiting)
       (sorted_nodes @ filter (\<lambda>nd. \<not> depends_on st waiting nd) waiting)"

definition toposort :: "gs_state \<Rightarrow> (py_error + unit) \<times> gs_state" where
  "toposort st =
     (case toposort_rounds (length (g_nodes st)) st (g_nodes st) [] of
        None \<Rightarrow> (Inl CycleError, st)
      | Some sorted_nodes \<Rightarrow> (Inr (), st\<lparr>g_nodes := sorted_nodes\<rparr>))"

definition cleanup_toposort :: "gs_state \<Rightarrow> (py_error + unit) \<times> gs_state" where
  "cleanup_toposort st = toposort (cleanup st)"

definition mark_graph_output ::
  "gs_state \<Rightarrow> string list \<Rightarrow> bool \<Rightarrow> bool \<Rightarrow> int list option \<Rightarrow> int list option \<Rightarrow> bool \<Rightarrow>
   (py_error + int) \<times> gs_state" where
  "mark_graph_output graph lNode bMarkOutput bMarkInput lMarkOutput lMarkInput bRemoveOldOutput =
     (let st0 = (if bRemoveOldOutput then graph\<lparr>g_outputs := []\<rparr> else graph);
          (r, st1) =
            mark_nodes_loop lNode bMarkOutput bMarkInput (g_nodes st0) lMarkOutput lMarkInput st0
      in case r of
           Inl e \<Rightarrow> (Inl e, st1)
         | Inr _ \<Rightarrow>
             (case cleanup_toposort st1 of
                (Inl e, st2) \<Rightarrow> (Inl e, st2)
              | (Inr _, st2) \<Rightarrow> (Inr (int (length lNode)), st2)))"

section \<open>find_son_node\<close>

text \<open>
  Lines 113 to 117: the consumers of the tensor in their order, the first one that meets
  the condition is returned; falling off the end of the function returns \<open>None\<close>. The
  condition is a predicate on the node object, which it reads in the store. The function
  has no assignment; the store is returned as the other functions return it.
\<close>

fun find_son_loop :: "(gs_state \<Rightarrow> nat \<Rightarrow> bool) \<Rightarrow> nat list \<Rightarrow> gs_state \<Rightarrow> nat option" where
  "find_son_loop condition [] st = None"
| "find_son_loop condition (subNode # rest) st =
     (if condition st subNode then Some subNode else find_son_loop condition rest st)"

definition find_son_node :: "gs_state \<Rightarrow> nat \<Rightarrow> (gs_state \<Rightarrow> nat \<Rightarrow> bool) \<Rightarrow> nat option \<times> gs_state" where
  "find_son_node st tensor condition =
     (find_son_loop condition (t_outputs (tensor_heap st tensor)) st, st)"

section \<open>build_mnist_network_onnx\<close>

text \<open>
  A raise ends the run of a builder: \<open>bind\<close> passes the value and the store of a call
  that returned on to the rest, and stops at the first error.
\<close>

definition bind ::
  "(py_error + 'a) \<times> gs_state \<Rightarrow> ('a \<Rightarrow> gs_state \<Rightarrow> (py_error + 'b) \<times> gs_state) \<Rightarrow>
   (py_error + 'b) \<times> gs_state" where
  "bind r f = (case r of (Inl e, st) \<Rightarrow> (Inl e, st) | (Inr x, st) \<Rightarrow> f x st)"

text \<open>
  \<open>tensor, n = add_node(...)\<close> where the builders go on to use \<open>tensor\<close> as one tensor, an
  element of the next input list. With a single element type \<open>add_node\<close> returns one;
  a list in that place is an error of type.
\<close>

definition add_node_tensor ::
  "gs_state \<Rightarrow> string \<Rightarrow> nat list \<Rightarrow> (string \<times> pyval) list \<Rightarrow> dtype_arg \<Rightarrow> pyval list \<Rightarrow>
   string \<Rightarrow> string \<Rightarrow> int \<Rightarrow> (py_error + nat \<times> int) \<times> gs_state" where
  "add_node_tensor graph node_type input_list attribution datatype_list shape_list prefix suffix number =
     bind (add_node graph node_type input_list attribution datatype_list shape_list prefix suffix number)
       (\<lambda>(out, n) st. case out of OneOutput t \<Rightarrow> (Inr (t, n), st)
                                | ManyOutputs ts \<Rightarrow> (Inl TypeError, st))"

text \<open>
  Lines 179 to 235. The ten tensors are created first, then the fifteen nodes, each
  call taking the counter of the one before; then the inputs and the outputs of the
  graph are declared and the graph is cleaned up and sorted. The export to the
  interchange format and the optional save are not modelled: the result is the graph
  that is exported.
\<close>

definition build_mnist_network_onnx :: "(py_error + unit) \<times> gs_state" where
  "build_mnist_network_onnx =
     (let graph = gs_Graph;
          (tensorX, graph) = gs_Variable graph ''tensorX'' Float32 (PyList [PyStr ''B'', PyInt 1, PyInt 28, PyInt 28]);
          (constant32x1, graph) = gs_Constant graph ''constant32x1x5x5'' Float32 (PyList [PyInt 32, PyInt 1, PyInt 5, PyInt 5]);
          (constant32, graph) = gs_Constant graph ''constant32'' Float32 (PyList [PyInt 32]);
          (constant64x32, graph) = gs_Constant graph ''constant64x32x5x5'' Float32 (PyList [PyInt 64, PyInt 32, PyInt 5, PyInt 5]);
          (constant64, graph) = gs_Constant graph ''constant64'' Float32 (PyList [PyInt 64]);
          (constantM1Comma3136, graph) = gs_Constant graph ''constantM1Comma3136'' Int64 (PyList [PyInt 2]);
          (constant3136x1024, graph) = gs_Constant graph ''constant3136x1024'' Float32 (PyList [PyInt 3136, PyInt 1024]);
          (constant1024, graph) = gs_Constant graph ''constant1024'' Float32 (PyList [PyInt 1024]);
          (constant1024x10, graph) = gs_Constant graph ''constant1024x10'' Float32 (PyList [PyInt 1024, PyInt 10]);
          (constant10, graph) = gs_Constant graph ''constant10'' Float32 (PyList [PyInt 10]);
          n = 0;
          scope_name = ''MNIST''
      in
      bind (add_node_tensor graph ''Conv'' [tensorX, constant32x1, constant32] [(''kernel_shape'', PyList [PyInt 5, PyInt 5]), (''pads'', PyList [PyInt 2, PyInt 2, PyInt 2, PyInt 2])]
              (DType Float32) [PyStr ''B'', PyInt 32, PyInt 28, PyInt 28] scope_name [] n) (\<lambda>(tensor1, n) graph.
      bind (add_node_tensor graph ''Relu'' [tensor1] []
              (DType Float32) [PyStr ''B'', PyInt 32, PyInt 28, PyInt 28] scope_name [] n) (\<lambda>(tensor2, n) graph.
      bind (add_node_tensor graph ''MaxPool'' [tensor2] [(''kernel_shape'', PyList [PyInt 2, PyInt 2]), (''pads'', PyList [PyInt 0, PyInt 0, PyInt 0, PyInt 0]), (''strides'', PyList [PyInt 2, PyInt 2])]
              (DType Float32) [PyStr ''B'', PyInt 32, PyInt 14, PyInt 14] scope_name [] n) (\<lambda>(tensor3, n) graph.
      bind (add_node_tensor graph ''Conv'' [tensor3, constant64x32, constant64] [(''kernel_shape'', PyList [PyInt 5, PyInt 5]), (''pads'', PyList [PyInt 2, PyInt 2, PyInt 2, PyInt 2])]
              (DType Float32) [PyStr ''B'', PyInt 64, PyInt 14, PyInt 14] scope_name [] n) (\<lambda>(tensor4, n) graph.
      bind (add_node_tensor graph ''Relu'' [tensor4] []
              (DType Float32) [PyStr ''B'', PyInt 64, PyInt 14, PyInt 14] scope_name [] n) (\<lambda>(tensor5, n) graph.
      bind (add_node_tensor graph ''MaxPool'' [tensor5] [(''kernel_shape'', PyList [PyInt 2, PyInt 2]), (''pads'', PyList [PyInt 0, PyInt 0, PyInt 0, PyInt 0]), (''strides'', PyList [PyInt 2, PyInt 2])]
              (DType Float32) [PyStr ''B'', PyInt 64, PyInt 7, PyInt 7] scope_name [] n) (\<lambda>(tensor6, n) graph.
      bind (add_node_tensor graph ''Transpose'' [tensor6] [(''perm'', PyList [PyInt 0, PyInt 2, PyInt 3, PyInt 1])]
              (DType Float32) [PyStr ''B'', PyInt 7, PyInt 7, PyInt 64] scope_name [] n) (\<lambda>(tensor7, n) graph.
      bind (add_node_tensor graph ''Reshape'' [tensor7, constantM1Comma3136] []
              (DType Float32) [PyStr ''B'', PyInt 3136] scope_name [] n) (\<lambda>(tensor8, n) graph.
      bind (add_node_tensor graph ''MatMul'' [tensor8, constant3136x1024] []
              (DType Float32) [PyStr ''B'', PyInt 1024] scope_name [] n) (\<lambda>(tensor9, n) graph.
      bind (add_node_tensor graph ''Add'' [tensor9, constant1024] []
              (DType Float32) [PyStr ''B'', PyInt 1024] scope_name [] n) (\<lambda>(tensor10, n) graph.
      bind (add_node_tensor graph ''Relu'' [tensor10] []
              (DType Float32) [PyStr ''B'', PyInt 1024] scope_name [] n) (\<lambda>(tensor11, n) graph.
      bind (add_node_tensor graph ''MatMul'' [tensor11, constant1024x10] []
              (DType Float32) [PyStr ''B'', PyInt 10] scope_name [] n) (\<lambda>(tensor12, n) graph.
      bind (add_node_tensor graph ''Add'' [tensor12, constant10] []
              (DType Float32) [PyStr ''B'', PyInt 10] scope_name [] n) (\<lambda>(tensor13, n) graph.
      bind (add_node_tensor graph ''Softmax'' [tensor13] [(''axis'', PyInt 1)]
              (DType Float32) [PyStr ''B'', PyInt 10] scope_name [] n) (\<lambda>(tensor14, n) graph.
      bind (add_node_tensor graph ''ArgMax'' [tensor14] [(''axis'', PyInt 1), (''keepdims'', PyInt 0)]
              (DType Int64) [PyStr ''B''] scope_name [] n) (\<lambda>(tensor15, n) graph.
      cleanup_toposort (graph\<lparr>g_inputs := [tensorX], g_outputs := [tensor13, tensor15]\<rparr>)))))))))))))))))"

section \<open>Observations\<close>

text \<open>
  What a call of \<open>add_node\<close> has named: the node at the end of \<open>graph.nodes\<close>, then the
  tensors it returned, in their order.
\<close>

definition generated_names :: "gs_state \<Rightarrow> outputs \<Rightarrow> string list" where
  "generated_names st out =
     n_name (node_heap st (last (g_nodes st))) #
     map (\<lambda>t. t_name (tensor_heap st t)) (outputs_list out)"

text \<open>
  A small graph for trying the functions on: the input \<open>x\<close> feeds a node named \<open>Conv\<close>
  with the output \<open>y\<close> of type \<open>int64\<close>, which feeds a node named \<open>Relu\<close> with the output
  \<open>z\<close>, the declared output of the graph.
\<close>

definition example_graph :: gs_state where
  "example_graph =
     (let graph = gs_Graph;
          (x, graph) = gs_Variable graph ''x'' Float32 (PyList [PyStr ''B'']);
          (y, graph) = gs_Variable graph ''y'' Int64 (PyList [PyStr ''B'']);
          (z, graph) = gs_Variable graph ''z'' Float16 (PyList [PyStr ''B'']);
          (conv, graph) = gs_Node graph ''Conv'' ''Conv'' [x] [y] [];
          (relu, graph) = gs_Node graph ''Relu'' ''Relu'' [y] [z] []
      in graph\<lparr>g_nodes := [conv, relu], g_inputs := [x], g_outputs := [z]\<rparr>)"

section \<open>Decimal numbers and names\<close>

lemma digit_char_not_dash: "d < 10 \<Longrightarrow> digit_char d \<noteq> CHR ''-''"
proof -
  assume "d < 10"
  then have "d \<in> {0, 1, 2, 3, 4, 5, 6, 7, 8, 9}" by auto
  then show ?thesis by (auto simp: digit_char_def)
qed

lemma digit_char_inj: "a < 10 \<Longrightarrow> b < 10 \<Longrightarrow> digit_char a = digit_char b \<Longrightarrow> a = b"
proof -
  assume "a < 10" "b < 10" and eq: "digit_char a = digit_char b"
  then have "a \<in> {0, 1, 2, 3, 4, 5, 6, 7, 8, 9}" "b \<in> {0, 1, 2, 3, 4, 5, 6, 7, 8, 9}" by auto
  with eq show ?thesis by (auto simp: digit_char_def)
qed

lemma str_nat_nonempty: "str_nat n \<noteq> []"
  by (subst str_nat.simps) simp

lemma str_nat_no_dash: "CHR ''-'' \<notin> set (str_nat n)"
proof (induction n rule: str_nat.induct)
  case (1 n)
  show ?case
  proof (cases "n < 10")
    case True
    then show ?thesis
      using digit_char_not_dash [of n] by (subst str_nat.simps) auto
  next
    case False
    then show ?thesis
      using 1 digit_char_not_dash [of "n mod 10"] by (subst str_nat.simps) auto
  qed
qed

lemma str_nat_inj: "str_nat a = str_nat b \<Longrightarrow> a = b"
proof (induction a arbitrary: b rule: str_nat.induct)
  case (1 a)
  show ?case
  proof (cases "a < 10")
    case a: True
    show ?thesis
    proof (cases "b < 10")
      case True
      with a "1.prems" show ?thesis
        by (simp add: str_nat.simps [of a] str_nat.simps [of b] digit_char_inj)
    next
      case False
      with a "1.prems" show ?thesis
        using str_nat_nonempty [of "b div 10"]
        by (auto simp add: str_nat.simps [of a] str_nat.simps [of b])
    qed
  next
    case a: False
    show ?thesis
    proof (cases "b < 10")
      case True
      with a "1.prems" show ?thesis
        using str_nat_nonempty [of "a div 10"]
        by (auto simp add: str_nat.simps [of a] str_nat.simps [of b])
    next
      case False
      with a "1.prems" have "str_nat (a div 10) = str_nat (b div 10)"
        and d: "digit_char (a mod 10) = digit_char (b mod 10)"
        by (simp_all add: str_nat.simps [of a] str_nat.simps [of b])
      with a "1.IH" have "a div 10 = b div 10" by simp
      moreover from d have "a mod 10 = b mod 10" by (simp add: digit_char_inj)
      ultimately show ?thesis by (metis div_mult_mod_eq)
    qed
  qed
qed

lemma takeWhile_upto: "c \<notin> set u \<Longrightarrow> takeWhile (\<lambda>x. x \<noteq> c) (u @ c # x) = u"
  by (induction u) auto

lemma dash_split:
  assumes "CHR ''-'' \<notin> set u" "CHR ''-'' \<notin> set v" "u @ CHR ''-'' # x = v @ CHR ''-'' # y"
  shows "u = v"
proof -
  have "takeWhile (\<lambda>c. c \<noteq> CHR ''-'') (u @ CHR ''-'' # x) = u"
    using assms(1) by (rule takeWhile_upto)
  moreover have "takeWhile (\<lambda>c. c \<noteq> CHR ''-'') (v @ CHR ''-'' # y) = v"
    using assms(2) by (rule takeWhile_upto)
  ultimately show ?thesis using assms(3) by simp
qed

lemma str_int_nonneg: "0 \<le> k \<Longrightarrow> str_int k = str_nat (nat k)"
  by (simp add: str_int_def)

lemma str_int_dash_inj:
  assumes "0 \<le> a" "0 \<le> b" "str_int a @ CHR ''-'' # x = str_int b @ CHR ''-'' # y"
  shows "a = b"
proof -
  have "str_nat (nat a) = str_nat (nat b)"
    using assms dash_split [of "str_nat (nat a)" "str_nat (nat b)" x y]
    by (simp add: str_int_nonneg str_nat_no_dash)
  then have "nat a = nat b" by (rule str_nat_inj)
  with assms show ?thesis by simp
qed

lemma node_tensor_name_neq: "node_name_of p k ty \<noteq> tensor_name_of p k' ty' s i"
  by (simp add: node_name_of_def tensor_name_of_def Let_def)

lemma node_name_counter:
  "0 \<le> k \<Longrightarrow> 0 \<le> k' \<Longrightarrow> k \<noteq> k' \<Longrightarrow> node_name_of p k ty \<noteq> node_name_of p k' ty'"
  using str_int_dash_inj [of k k' ty ty'] by (auto simp add: node_name_of_def)

lemma tensor_name_counter:
  "0 \<le> k \<Longrightarrow> 0 \<le> k' \<Longrightarrow> k \<noteq> k' \<Longrightarrow> tensor_name_of p k ty s i \<noteq> tensor_name_of p k' ty' s' j"
  using str_int_dash_inj [of k k']
  by (auto simp add: tensor_name_of_def Let_def)

lemma tensor_name_position:
  "i \<noteq> j \<Longrightarrow> tensor_name_of p k ty s i \<noteq> tensor_name_of p k ty s j"
  using str_nat_inj [of i j] by (auto simp add: tensor_name_of_def Let_def str_int_nonneg)

lemma distinct_tensor_names: "distinct (map (tensor_name_of p k ty s) [0..<n])"
  by (auto simp add: distinct_map inj_on_def dest: tensor_name_position [of _ _ p k ty s, rotated])

section \<open>The store under add_node\<close>

lemma new_tensor_fields [simp]:
  "fst (new_tensor st t) = next_tensor st"
  "next_tensor (snd (new_tensor st t)) = Suc (next_tensor st)"
  "tensor_heap (snd (new_tensor st t)) = (tensor_heap st)(next_tensor st := t)"
  "node_heap (snd (new_tensor st t)) = node_heap st"
  "next_node (snd (new_tensor st t)) = next_node st"
  "g_nodes (snd (new_tensor st t)) = g_nodes st"
  "g_inputs (snd (new_tensor st t)) = g_inputs st"
  "g_outputs (snd (new_tensor st t)) = g_outputs st"
  by (simp_all add: new_tensor_def)

lemma add_node_loop_fst:
  "fst (add_node_loop p k ty s dts shs is acc st) = acc @ [next_tensor st ..< next_tensor st + length is]"
proof (induction "is" arbitrary: acc st)
  case Nil
  show ?case by simp
next
  case (Cons i "is")
  show ?case
    by (simp add: Cons.IH gs_Variable_def split_beta upt_conv_Cons del: upt_Suc)
qed

lemma add_node_loop_frame:
  "node_heap (snd (add_node_loop p k ty s dts shs is acc st)) = node_heap st"
  "next_node (snd (add_node_loop p k ty s dts shs is acc st)) = next_node st"
  "g_nodes (snd (add_node_loop p k ty s dts shs is acc st)) = g_nodes st"
  "g_inputs (snd (add_node_loop p k ty s dts shs is acc st)) = g_inputs st"
  "g_outputs (snd (add_node_loop p k ty s dts shs is acc st)) = g_outputs st"
  "next_tensor (snd (add_node_loop p k ty s dts shs is acc st)) = next_tensor st + length is"
  by (induction "is" arbitrary: acc st; simp add: gs_Variable_def split_beta)+

lemma add_node_loop_old:
  "r < next_tensor st \<Longrightarrow>
   tensor_heap (snd (add_node_loop p k ty s dts shs is acc st)) r = tensor_heap st r"
  by (induction "is" arbitrary: acc st) (simp_all add: gs_Variable_def split_beta)

lemma add_node_loop_new:
  "j < length is \<Longrightarrow>
   tensor_heap (snd (add_node_loop p k ty s dts shs is acc st)) (next_tensor st + j) =
     \<lparr>t_name = tensor_name_of p k ty s (is ! j), t_dtype = dts ! (is ! j), t_shape = shs ! (is ! j),
      t_is_constant = False, t_inputs = [], t_outputs = []\<rparr>"
proof (induction "is" arbitrary: acc st j)
  case Nil
  then show ?case by simp
next
  case (Cons i "is")
  show ?case
  proof (cases j)
    case 0
    then show ?thesis
      by (simp add: gs_Variable_def split_beta add_node_loop_old)
  next
    case (Suc j')
    with Cons.prems have "j' < length is" by simp
    from Cons.IH [OF this, of "acc @ [next_tensor st]" "snd (gs_Variable st (tensor_name_of p k ty s i) (dts ! i) (shs ! i))"]
    show ?thesis using Suc
      by (simp add: gs_Variable_def split_beta)
  qed
qed

lemma fold_add_consumer_frame:
  "node_heap (fold (add_consumer nd) ts st) = node_heap st"
  "next_node (fold (add_consumer nd) ts st) = next_node st"
  "next_tensor (fold (add_consumer nd) ts st) = next_tensor st"
  "g_nodes (fold (add_consumer nd) ts st) = g_nodes st"
  "g_inputs (fold (add_consumer nd) ts st) = g_inputs st"
  "g_outputs (fold (add_consumer nd) ts st) = g_outputs st"
  by (induction ts arbitrary: st; simp add: add_consumer_def)+

lemma fold_add_producer_frame:
  "node_heap (fold (add_producer nd) ts st) = node_heap st"
  "next_node (fold (add_producer nd) ts st) = next_node st"
  "next_tensor (fold (add_producer nd) ts st) = next_tensor st"
  "g_nodes (fold (add_producer nd) ts st) = g_nodes st"
  "g_inputs (fold (add_producer nd) ts st) = g_inputs st"
  "g_outputs (fold (add_producer nd) ts st) = g_outputs st"
  by (induction ts arbitrary: st; simp add: add_producer_def)+

lemma fold_add_consumer_tensor:
  "t_name (tensor_heap (fold (add_consumer nd) ts st) r) = t_name (tensor_heap st r)"
  "t_dtype (tensor_heap (fold (add_consumer nd) ts st) r) = t_dtype (tensor_heap st r)"
  "t_shape (tensor_heap (fold (add_consumer nd) ts st) r) = t_shape (tensor_heap st r)"
  by (induction ts arbitrary: st; simp add: add_consumer_def)+

lemma fold_add_producer_tensor:
  "t_name (tensor_heap (fold (add_producer nd) ts st) r) = t_name (tensor_heap st r)"
  "t_dtype (tensor_heap (fold (add_producer nd) ts st) r) = t_dtype (tensor_heap st r)"
  "t_shape (tensor_heap (fold (add_producer nd) ts st) r) = t_shape (tensor_heap st r)"
  by (induction ts arbitrary: st; simp add: add_producer_def)+

lemma gs_Node_fields:
  "fst (gs_Node st op name ins outs attrs) = next_node st"
  "next_node (snd (gs_Node st op name ins outs attrs)) = Suc (next_node st)"
  "next_tensor (snd (gs_Node st op name ins outs attrs)) = next_tensor st"
  "g_nodes (snd (gs_Node st op name ins outs attrs)) = g_nodes st"
  "g_inputs (snd (gs_Node st op name ins outs attrs)) = g_inputs st"
  "g_outputs (snd (gs_Node st op name ins outs attrs)) = g_outputs st"
  "node_heap (snd (gs_Node st op name ins outs attrs)) =
     (node_heap st)(next_node st :=
        \<lparr>n_op = op, n_name = name, n_attrs = attrs, n_inputs = ins, n_outputs = outs\<rparr>)"
  "t_name (tensor_heap (snd (gs_Node st op name ins outs attrs)) r) = t_name (tensor_heap st r)"
  "t_dtype (tensor_heap (snd (gs_Node st op name ins outs attrs)) r) = t_dtype (tensor_heap st r)"
  "t_shape (tensor_heap (snd (gs_Node st op name ins outs attrs)) r) = t_shape (tensor_heap st r)"
  by (simp_all add: gs_Node_def Let_def fold_add_consumer_frame fold_add_producer_frame
        fold_add_consumer_tensor fold_add_producer_tensor)

lemma add_node_body_fst:
  "fst (add_node_body st ty ins at dts shs p s k) =
     (if length dts = 1 then OneOutput (next_tensor st)
      else ManyOutputs [next_tensor st ..< next_tensor st + length dts], k + 1)"
  by (simp add: add_node_body_def Let_def split_beta add_node_loop_fst gs_Variable_def)

lemma add_node_body_frame:
  "g_nodes (snd (add_node_body st ty ins at dts shs p s k)) = g_nodes st @ [next_node st]"
  "g_inputs (snd (add_node_body st ty ins at dts shs p s k)) = g_inputs st"
  "g_outputs (snd (add_node_body st ty ins at dts shs p s k)) = g_outputs st"
  "next_node (snd (add_node_body st ty ins at dts shs p s k)) = Suc (next_node st)"
  "next_tensor (snd (add_node_body st ty ins at dts shs p s k)) = next_tensor st + length dts"
  "node_heap (snd (add_node_body st ty ins at dts shs p s k)) =
     (node_heap st)(next_node st :=
        \<lparr>n_op = ty, n_name = node_name_of p k ty, n_attrs = at, n_inputs = ins,
         n_outputs = [next_tensor st ..< next_tensor st + length dts]\<rparr>)"
  by (simp_all add: add_node_body_def Let_def split_beta gs_Node_fields add_node_loop_frame
        add_node_loop_fst)

lemma add_node_body_new:
  assumes "j < length dts"
  shows "t_name (tensor_heap (snd (add_node_body st ty ins at dts shs p s k)) (next_tensor st + j)) =
           tensor_name_of p k ty s j"
    and "t_dtype (tensor_heap (snd (add_node_body st ty ins at dts shs p s k)) (next_tensor st + j)) =
           dts ! j"
    and "t_shape (tensor_heap (snd (add_node_body st ty ins at dts shs p s k)) (next_tensor st + j)) =
           shs ! j"
  using assms
  by (simp_all add: add_node_body_def Let_def split_beta gs_Node_fields add_node_loop_new)

lemma add_node_body_old:
  assumes "r < next_tensor st"
  shows "t_name (tensor_heap (snd (add_node_body st ty ins at dts shs p s k)) r) =
           t_name (tensor_heap st r)"
    and "t_dtype (tensor_heap (snd (add_node_body st ty ins at dts shs p s k)) r) =
           t_dtype (tensor_heap st r)"
    and "t_shape (tensor_heap (snd (add_node_body st ty ins at dts shs p s k)) r) =
           t_shape (tensor_heap st r)"
  using assms
  by (simp_all add: add_node_body_def Let_def split_beta gs_Node_fields add_node_loop_old)

section \<open>Facts about add_node\<close>

lemma add_node_DType:
  "add_node st ty ins at (DType dt) shs p s k =
     (Inr (fst (add_node_body st ty ins at [dt] [PyList shs] p s k)),
      snd (add_node_body st ty ins at [dt] [PyList shs] p s k))"
  by (simp add: add_node_def split_beta)

lemma add_node_DTypeList:
  "length dts = length shs \<Longrightarrow>
   add_node st ty ins at (DTypeList dts) shs p s k =
     (Inr (fst (add_node_body st ty ins at dts shs p s k)),
      snd (add_node_body st ty ins at dts shs p s k))"
  by (simp add: add_node_def split_beta)

lemma add_node_Inr:
  assumes "add_node st ty ins at dl shs p s k = (Inr r, st')"
  obtains dts shs' where "length dts = length shs'"
    and "r = fst (add_node_body st ty ins at dts shs' p s k)"
    and "st' = snd (add_node_body st ty ins at dts shs' p s k)"
proof (cases dl)
  case (DType dt)
  with assms have "r = fst (add_node_body st ty ins at [dt] [PyList shs] p s k)"
    and "st' = snd (add_node_body st ty ins at [dt] [PyList shs] p s k)"
    by (simp_all add: add_node_DType)
  then show ?thesis using that [of "[dt]" "[PyList shs]"] by simp
next
  case (DTypeList dts)
  show ?thesis
  proof (cases "length dts = length shs")
    case True
    with assms DTypeList have "r = fst (add_node_body st ty ins at dts shs p s k)"
      and "st' = snd (add_node_body st ty ins at dts shs p s k)"
      by (simp_all add: add_node_DTypeList)
    with True show ?thesis using that by simp
  next
    case False
    with assms DTypeList show ?thesis by (simp add: add_node_def)
  qed
qed

lemma outputs_list_body:
  "outputs_list (fst (fst (add_node_body st ty ins at dts shs p s k))) =
     [next_tensor st ..< next_tensor st + length dts]"
  by (simp add: add_node_body_fst)

lemma tensor_names_body:
  "map (\<lambda>t. t_name (tensor_heap (snd (add_node_body st ty ins at dts shs p s k)) t))
     [next_tensor st ..< next_tensor st + length dts] =
   map (tensor_name_of p k ty s) [0..<length dts]"
  by (rule nth_equalityI) (simp_all add: add_node_body_new)

lemma generated_names_body:
  "generated_names (snd (add_node_body st ty ins at dts shs p s k))
     (fst (fst (add_node_body st ty ins at dts shs p s k))) =
   node_name_of p k ty # map (tensor_name_of p k ty s) [0..<length dts]"
  by (simp add: generated_names_def outputs_list_body tensor_names_body add_node_body_frame)

lemma distinct_two_calls:
  assumes "0 \<le> k"
  shows "distinct ((node_name_of p k ty1 # map (tensor_name_of p k ty1 s1) [0..<n1]) @
                   (node_name_of p (k + 1) ty2 # map (tensor_name_of p (k + 1) ty2 s2) [0..<n2]))"
  using assms
  by (auto simp add: distinct_tensor_names node_tensor_name_neq node_tensor_name_neq [symmetric]
        node_name_counter tensor_name_counter)

lemma str_int_zero: "str_int 0 = ''0''"
  by (simp add: str_int_def str_nat.simps [of 0] digit_char_def)

lemma add_node_body_names:
  assumes "i < length dts"
  shows "t_name (tensor_heap (snd (add_node_body st ty ins at dts shs p s k))
           (outputs_list (fst (fst (add_node_body st ty ins at dts shs p s k))) ! i)) =
         p @ ''-V-'' @ str_int k @ ''-'' @ ty @ ''-'' @ str_int (int i) @
         (if s = [] then [] else ''-'' @ s)"
  using assms by (simp add: outputs_list_body add_node_body_new tensor_name_of_def)

lemma str_int_digit:
  assumes "0 \<le> k" "k < 10"
  shows "str_int k = [digit_char (nat k)]"
proof -
  from assms have "nat k < 10" by simp
  then have "str_nat (nat k) = [digit_char (nat k)]"
    by (subst str_nat.simps) simp
  with assms show ?thesis by (simp add: str_int_def)
qed

section \<open>Properties of add_node\<close>

text \<open>
  Claim C1. Two calls of \<open>add_node\<close> in sequence with the same prefix, the first with a
  counter \<open>k \<ge> 0\<close> and the second with \<open>k + 1\<close>, whatever the operation types, the
  suffixes and the numbers of outputs: the name of the node and the names of the tensors
  of the first call, followed by those of the second call, are pairwise distinct. The
  second call leaves the names of the first call as they were.
\<close>

theorem add_node_names_unique:
  assumes "add_node graph ty1 ins1 at1 dl1 sh1 prefix s1 k = (Inr (out1, k1), graph1)"
    and "add_node graph1 ty2 ins2 at2 dl2 sh2 prefix s2 (k + 1) = (Inr (out2, k2), graph2)"
    and "0 \<le> k"
  shows "distinct (generated_names graph1 out1 @ generated_names graph2 out2) \<and>
         n_name (node_heap graph2 (last (g_nodes graph1))) #
           map (\<lambda>t. t_name (tensor_heap graph2 t)) (outputs_list out1) =
         generated_names graph1 out1"
proof -
  from assms(1) obtain d1 h1 where
    out1: "(out1, k1) = fst (add_node_body graph ty1 ins1 at1 d1 h1 prefix s1 k)" and
    graph1: "graph1 = snd (add_node_body graph ty1 ins1 at1 d1 h1 prefix s1 k)"
    by (rule add_node_Inr)
  from assms(2) obtain d2 h2 where
    out2: "(out2, k2) = fst (add_node_body graph1 ty2 ins2 at2 d2 h2 prefix s2 (k + 1))" and
    graph2: "graph2 = snd (add_node_body graph1 ty2 ins2 at2 d2 h2 prefix s2 (k + 1))"
    by (rule add_node_Inr)
  from out1 have o1: "out1 = fst (fst (add_node_body graph ty1 ins1 at1 d1 h1 prefix s1 k))"
    by (metis fst_conv)
  from out2 have o2: "out2 = fst (fst (add_node_body graph1 ty2 ins2 at2 d2 h2 prefix s2 (k + 1)))"
    by (metis fst_conv)
  have n1: "generated_names graph1 out1 =
      node_name_of prefix k ty1 # map (tensor_name_of prefix k ty1 s1) [0..<length d1]"
    unfolding o1 graph1 by (rule generated_names_body)
  have n2: "generated_names graph2 out2 =
      node_name_of prefix (k + 1) ty2 # map (tensor_name_of prefix (k + 1) ty2 s2) [0..<length d2]"
    unfolding o2 graph2 by (rule generated_names_body)
  have l1: "outputs_list out1 = [next_tensor graph ..< next_tensor graph + length d1]"
    unfolding o1 by (rule outputs_list_body)
  have nt: "next_tensor graph1 = next_tensor graph + length d1"
    and nn: "next_node graph1 = Suc (next_node graph)"
    and gl: "last (g_nodes graph1) = next_node graph"
    unfolding graph1 by (simp_all add: add_node_body_frame)
  have node_kept: "n_name (node_heap graph2 (last (g_nodes graph1))) =
      n_name (node_heap graph1 (last (g_nodes graph1)))"
    unfolding graph2 by (simp add: add_node_body_frame nn gl)
  have "t_name (tensor_heap graph2 t) = t_name (tensor_heap graph1 t)"
    if "t \<in> set (outputs_list out1)" for t
  proof -
    from that have "t < next_tensor graph1" by (simp add: l1 nt)
    then show ?thesis unfolding graph2 by (rule add_node_body_old)
  qed
  then have "map (\<lambda>t. t_name (tensor_heap graph2 t)) (outputs_list out1) =
      map (\<lambda>t. t_name (tensor_heap graph1 t)) (outputs_list out1)"
    by simp
  with node_kept have kept: "n_name (node_heap graph2 (last (g_nodes graph1))) #
      map (\<lambda>t. t_name (tensor_heap graph2 t)) (outputs_list out1) = generated_names graph1 out1"
    by (simp add: generated_names_def)
  from distinct_two_calls [OF assms(3)] n1 n2 kept show ?thesis by simp
qed

theorem add_node_names_unique_witness:
  "\<exists>out1 k1 graph1 out2 k2 graph2.
     add_node gs_Graph ''Split'' [] [] (DTypeList [Float32, Float32]) [PyList [], PyList []]
       ''P'' [] 0 = (Inr (out1, k1), graph1) \<and>
     add_node graph1 ''Relu'' [] [] (DType Float32) [] ''P'' ''x'' (0 + 1) = (Inr (out2, k2), graph2) \<and>
     (0::int) \<le> 0 \<and>
     distinct (generated_names graph1 out1 @ generated_names graph2 out2) \<and>
     generated_names graph1 out1 = [''P-N-0-Split'', ''P-V-0-Split-0'', ''P-V-0-Split-1''] \<and>
     generated_names graph2 out2 = [''P-N-1-Relu'', ''P-V-1-Relu-0-x'']"
proof -
  let ?B1 = "add_node_body gs_Graph ''Split'' [] [] [Float32, Float32] [PyList [], PyList []] ''P'' [] 0"
  let ?B2 = "add_node_body (snd ?B1) ''Relu'' [] [] [Float32] [PyList []] ''P'' ''x'' (0 + 1)"
  have h1: "add_node gs_Graph ''Split'' [] [] (DTypeList [Float32, Float32]) [PyList [], PyList []]
       ''P'' [] 0 = (Inr (fst (fst ?B1), snd (fst ?B1)), snd ?B1)"
    by (simp add: add_node_DTypeList)
  have h2: "add_node (snd ?B1) ''Relu'' [] [] (DType Float32) [] ''P'' ''x'' (0 + 1) =
      (Inr (fst (fst ?B2), snd (fst ?B2)), snd ?B2)"
    by (simp add: add_node_DType)
  have h3: "(0::int) \<le> 0" by simp
  have d: "distinct (generated_names (snd ?B1) (fst (fst ?B1)) @ generated_names (snd ?B2) (fst (fst ?B2)))"
    using add_node_names_unique [OF h1 h2 h3] by blast
  have e1: "generated_names (snd ?B1) (fst (fst ?B1)) =
      [''P-N-0-Split'', ''P-V-0-Split-0'', ''P-V-0-Split-1'']"
    by (simp add: generated_names_body node_name_of_def tensor_name_of_def str_int_digit
          digit_char_def upt_conv_Cons)
  have e2: "generated_names (snd ?B2) (fst (fst ?B2)) = [''P-N-1-Relu'', ''P-V-1-Relu-0-x'']"
    by (simp add: generated_names_body node_name_of_def tensor_name_of_def str_int_digit
          digit_char_def)
  from h1 h2 h3 d e1 e2 show ?thesis by blast
qed

text \<open>
  Claim C2. When \<open>datatype_list\<close> is a list whose length differs from the length of
  \<open>shape_list\<close>, \<open>add_node\<close> raises the assertion error, and the graph it leaves behind
  is the graph it was given: no node was appended and nothing was created.
\<close>

theorem add_node_length_mismatch:
  assumes "length dts \<noteq> length shape_list"
  shows "add_node graph node_type input_list attribution (DTypeList dts) shape_list prefix suffix number =
           (Inl AssertionError, graph)"
  using assms by (simp add: add_node_def)

theorem add_node_length_mismatch_witness:
  "length [Float32, Int64] \<noteq> length [PyList [PyInt 3]] \<and>
   add_node gs_Graph ''TopK'' [] [] (DTypeList [Float32, Int64]) [PyList [PyInt 3]] ''P'' [] 0 =
     (Inl AssertionError, gs_Graph)"
proof -
  have h: "length [Float32, Int64] \<noteq> length [PyList [PyInt 3]]" by simp
  from h add_node_length_mismatch [OF h] show ?thesis by blast
qed

text \<open>
  Claim C3. After a call of \<open>add_node\<close> that returns, with counter \<open>number\<close>, the node
  appended last is named \<open>{prefix}-N-{number}-{node_type}\<close> without the suffix, its
  outputs are the returned tensors, and the tensor at position \<open>i\<close> is named
  \<open>{prefix}-V-{number}-{node_type}-{i}\<close>, followed by \<open>-{suffix}\<close> exactly when the suffix
  is not empty.
\<close>

theorem add_node_names:
  assumes "add_node graph node_type input_list attribution datatype_list shape_list prefix suffix number =
             (Inr (out, n'), graph')"
  shows "n_name (node_heap graph' (last (g_nodes graph'))) =
           prefix @ ''-N-'' @ str_int number @ ''-'' @ node_type \<and>
         n_outputs (node_heap graph' (last (g_nodes graph'))) = outputs_list out \<and>
         (\<forall>i < length (outputs_list out).
            t_name (tensor_heap graph' (outputs_list out ! i)) =
              prefix @ ''-V-'' @ str_int number @ ''-'' @ node_type @ ''-'' @ str_int (int i) @
              (if suffix = [] then [] else ''-'' @ suffix))"
proof -
  from assms obtain dts shs where
    out: "(out, n') = fst (add_node_body graph node_type input_list attribution dts shs prefix suffix number)" and
    graph': "graph' = snd (add_node_body graph node_type input_list attribution dts shs prefix suffix number)"
    by (rule add_node_Inr)
  from out have o: "out = fst (fst (add_node_body graph node_type input_list attribution dts shs prefix suffix number))"
    by (metis fst_conv)
  have l: "outputs_list out = [next_tensor graph ..< next_tensor graph + length dts]"
    unfolding o by (rule outputs_list_body)
  have "n_name (node_heap graph' (last (g_nodes graph'))) =
          prefix @ ''-N-'' @ str_int number @ ''-'' @ node_type"
    unfolding graph' by (simp add: add_node_body_frame node_name_of_def)
  moreover have "n_outputs (node_heap graph' (last (g_nodes graph'))) = outputs_list out"
    unfolding graph' l by (simp add: add_node_body_frame)
  moreover have "t_name (tensor_heap graph' (outputs_list out ! i)) =
      prefix @ ''-V-'' @ str_int number @ ''-'' @ node_type @ ''-'' @ str_int (int i) @
      (if suffix = [] then [] else ''-'' @ suffix)" if "i < length (outputs_list out)" for i
  proof -
    from that have "i < length dts" by (simp add: l)
    then show ?thesis unfolding graph' o by (rule add_node_body_names)
  qed
  ultimately show ?thesis by blast
qed

theorem add_node_names_witness:
  "\<exists>out n' graph'.
     add_node gs_Graph ''TopK'' [] [] (DTypeList [Float32, Int64]) [PyList [PyInt 3], PyList [PyInt 3]]
       ''P'' ''b'' 7 = (Inr (out, n'), graph') \<and>
     n_name (node_heap graph' (last (g_nodes graph'))) = ''P-N-7-TopK'' \<and>
     map (\<lambda>t. t_name (tensor_heap graph' t)) (outputs_list out) = [''P-V-7-TopK-0-b'', ''P-V-7-TopK-1-b'']"
proof -
  let ?B = "add_node_body gs_Graph ''TopK'' [] [] [Float32, Int64] [PyList [PyInt 3], PyList [PyInt 3]] ''P'' ''b'' 7"
  have h: "add_node gs_Graph ''TopK'' [] [] (DTypeList [Float32, Int64]) [PyList [PyInt 3], PyList [PyInt 3]]
       ''P'' ''b'' 7 = (Inr (fst (fst ?B), snd (fst ?B)), snd ?B)"
    by (simp add: add_node_DTypeList)
  have l: "outputs_list (fst (fst ?B)) = [0, 1]"
    by (simp add: outputs_list_body gs_Graph_def upt_conv_Cons)
  note c = add_node_names [OF h]
  from c have n: "n_name (node_heap (snd ?B) (last (g_nodes (snd ?B)))) = ''P-N-7-TopK''"
    by (simp add: str_int_digit digit_char_def)
  from c have "0 < length (outputs_list (fst (fst ?B))) \<longrightarrow>
      t_name (tensor_heap (snd ?B) (outputs_list (fst (fst ?B)) ! 0)) =
        ''P'' @ ''-V-'' @ str_int 7 @ ''-'' @ ''TopK'' @ ''-'' @ str_int (int 0) @
        (if ''b'' = [] then [] else ''-'' @ ''b'')"
    by blast
  then have t0: "t_name (tensor_heap (snd ?B) 0) = ''P-V-7-TopK-0-b''"
    by (simp add: l str_int_digit digit_char_def)
  from c have "1 < length (outputs_list (fst (fst ?B))) \<longrightarrow>
      t_name (tensor_heap (snd ?B) (outputs_list (fst (fst ?B)) ! 1)) =
        ''P'' @ ''-V-'' @ str_int 7 @ ''-'' @ ''TopK'' @ ''-'' @ str_int (int 1) @
        (if ''b'' = [] then [] else ''-'' @ ''b'')"
    by blast
  then have t1: "t_name (tensor_heap (snd ?B) 1) = ''P-V-7-TopK-1-b''"
    by (simp add: l str_int_digit digit_char_def)
  from l t0 t1 have m: "map (\<lambda>t. t_name (tensor_heap (snd ?B) t)) (outputs_list (fst (fst ?B))) =
      [''P-V-7-TopK-0-b'', ''P-V-7-TopK-1-b'']"
    by simp
  show ?thesis
    apply (rule exI [of _ "fst (fst ?B)"])
    apply (rule exI [of _ "snd (fst ?B)"])
    apply (rule exI [of _ "snd ?B"])
    apply (rule conjI [OF h conjI [OF n m]])
    done
qed

text \<open>
  Claim C4. With a single element type, \<open>add_node\<close> returns, it returns one tensor that
  is not wrapped in a list, and the name of that tensor ends in \<open>-0\<close>, or in
  \<open>-0-{suffix}\<close> when the suffix is not empty.
\<close>

theorem add_node_single_output:
  "\<exists>t graph'.
     add_node graph node_type input_list attribution (DType dt) shape_list prefix suffix number =
       (Inr (OneOutput t, number + 1), graph') \<and>
     t_name (tensor_heap graph' t) =
       (prefix @ ''-V-'' @ str_int number @ ''-'' @ node_type) @
       (if suffix = [] then ''-0'' else ''-0-'' @ suffix)"
proof -
  let ?B = "add_node_body graph node_type input_list attribution [dt] [PyList shape_list] prefix suffix number"
  have "add_node graph node_type input_list attribution (DType dt) shape_list prefix suffix number =
          (Inr (OneOutput (next_tensor graph), number + 1), snd ?B)"
    by (simp add: add_node_DType add_node_body_fst)
  moreover have "t_name (tensor_heap (snd ?B) (next_tensor graph)) =
      (prefix @ ''-V-'' @ str_int number @ ''-'' @ node_type) @
      (if suffix = [] then ''-0'' else ''-0-'' @ suffix)"
    using add_node_body_new(1) [of 0 "[dt]" graph node_type input_list attribution "[PyList shape_list]" prefix suffix number]
    by (simp add: tensor_name_of_def str_int_zero)
  ultimately show ?thesis by blast
qed

theorem add_node_single_output_witness:
  "\<exists>t graph'.
     add_node gs_Graph ''Conv'' [] [] (DType Float32) [PyStr ''B''] ''MNIST'' ''w'' 3 =
       (Inr (OneOutput t, 4), graph') \<and>
     t_name (tensor_heap graph' t) = ''MNIST-V-3-Conv-0-w''"
  using add_node_single_output [of gs_Graph "''Conv''" "[]" "[]" Float32 "[PyStr ''B'']" "''MNIST''" "''w''" 3]
  by (simp add: str_int_digit digit_char_def)

text \<open>
  Claim C5. With \<open>N\<close> element types and \<open>N\<close> shapes given as lists, \<open>add_node\<close> returns
  the counter plus one and \<open>N\<close> tensors (one tensor alone is returned as itself), the
  tensor at position \<open>i\<close> carries \<open>-{i}\<close> in its name for \<open>i\<close> from \<open>0\<close> to \<open>N - 1\<close>, and
  exactly one node, whose outputs they are, is appended to the nodes of the graph.
\<close>

theorem add_node_multi_output:
  assumes "length dts = length shape_list"
  shows "\<exists>out graph'.
     add_node graph node_type input_list attribution (DTypeList dts) shape_list prefix suffix number =
       (Inr (out, number + 1), graph') \<and>
     length (outputs_list out) = length dts \<and>
     out = (if length dts = 1 then OneOutput (outputs_list out ! 0) else ManyOutputs (outputs_list out)) \<and>
     (\<forall>i < length dts.
        t_name (tensor_heap graph' (outputs_list out ! i)) =
          prefix @ ''-V-'' @ str_int number @ ''-'' @ node_type @ ''-'' @ str_int (int i) @
          (if suffix = [] then [] else ''-'' @ suffix)) \<and>
     (\<exists>nd. g_nodes graph' = g_nodes graph @ [nd] \<and> n_outputs (node_heap graph' nd) = outputs_list out)"
proof -
  let ?B = "add_node_body graph node_type input_list attribution dts shape_list prefix suffix number"
  let ?out = "fst (fst ?B)"
  have call: "add_node graph node_type input_list attribution (DTypeList dts) shape_list prefix suffix number =
          (Inr (?out, number + 1), snd ?B)"
    using assms by (simp add: add_node_DTypeList add_node_body_fst)
  have l: "outputs_list ?out = [next_tensor graph ..< next_tensor graph + length dts]"
    by (rule outputs_list_body)
  have len: "length (outputs_list ?out) = length dts" by (simp add: l)
  have shape: "?out = (if length dts = 1 then OneOutput (outputs_list ?out ! 0)
                       else ManyOutputs (outputs_list ?out))"
    by (simp add: add_node_body_fst)
  have names: "\<forall>i < length dts.
        t_name (tensor_heap (snd ?B) (outputs_list ?out ! i)) =
          prefix @ ''-V-'' @ str_int number @ ''-'' @ node_type @ ''-'' @ str_int (int i) @
          (if suffix = [] then [] else ''-'' @ suffix)"
    by (simp add: add_node_body_names)
  have node: "g_nodes (snd ?B) = g_nodes graph @ [next_node graph] \<and>
      n_outputs (node_heap (snd ?B) (next_node graph)) = outputs_list ?out"
    by (simp add: add_node_body_frame l)
  from call len shape names node show ?thesis by blast
qed

theorem add_node_multi_output_witness:
  "length [Float32, Int64] = length [PyList [PyInt 3], PyList [PyInt 3]] \<and>
   (\<exists>ts graph'.
     add_node gs_Graph ''TopK'' [] [] (DTypeList [Float32, Int64]) [PyList [PyInt 3], PyList [PyInt 3]]
       ''P'' [] 7 = (Inr (ManyOutputs ts, 8), graph') \<and>
     length ts = 2 \<and>
     map (\<lambda>t. t_name (tensor_heap graph' t)) ts = [''P-V-7-TopK-0'', ''P-V-7-TopK-1''] \<and>
     length (g_nodes graph') = 1)"
proof -
  have h: "length [Float32, Int64] = length [PyList [PyInt 3], PyList [PyInt 3]]" by simp
  from add_node_multi_output [OF h, of gs_Graph "''TopK''" "[]" "[]" "''P''" "[]" 7]
  obtain out graph' where
    call: "add_node gs_Graph ''TopK'' [] [] (DTypeList [Float32, Int64]) [PyList [PyInt 3], PyList [PyInt 3]]
       ''P'' [] 7 = (Inr (out, 8), graph')"
    and len: "length (outputs_list out) = 2"
    and out: "out = ManyOutputs (outputs_list out)"
    and names: "\<forall>i<2. t_name (tensor_heap graph' (outputs_list out ! i)) =
          ''P'' @ ''-V-'' @ str_int 7 @ ''-'' @ ''TopK'' @ ''-'' @ str_int (int i)"
    and nodes: "\<exists>nd. g_nodes graph' = g_nodes gs_Graph @ [nd]"
    by auto
  from len obtain a b where ab: "outputs_list out = [a, b]"
    by (cases "outputs_list out"; cases "tl (outputs_list out)") auto
  from names have "t_name (tensor_heap graph' (outputs_list out ! 0)) = ''P-V-7-TopK-0''"
    using str_int_digit [of 7] str_int_digit [of 0] by (simp add: digit_char_def)
  moreover from names have "1 < (2::nat) \<longrightarrow> t_name (tensor_heap graph' (outputs_list out ! 1)) =
      ''P'' @ ''-V-'' @ str_int 7 @ ''-'' @ ''TopK'' @ ''-'' @ str_int (int 1)"
    by blast
  then have "t_name (tensor_heap graph' (outputs_list out ! 1)) = ''P-V-7-TopK-1''"
    using str_int_digit [of 7] str_int_digit [of 1] by (simp add: digit_char_def)
  ultimately have "map (\<lambda>t. t_name (tensor_heap graph' t)) (outputs_list out) =
      [''P-V-7-TopK-0'', ''P-V-7-TopK-1'']"
    by (simp add: ab)
  moreover from nodes have "length (g_nodes graph') = 1" by (auto simp add: gs_Graph_def)
  moreover from call out have "add_node gs_Graph ''TopK'' [] [] (DTypeList [Float32, Int64])
       [PyList [PyInt 3], PyList [PyInt 3]] ''P'' [] 7 = (Inr (ManyOutputs (outputs_list out), 8), graph')"
    by simp
  ultimately have body: "add_node gs_Graph ''TopK'' [] [] (DTypeList [Float32, Int64])
       [PyList [PyInt 3], PyList [PyInt 3]] ''P'' [] 7 = (Inr (ManyOutputs (outputs_list out), 8), graph') \<and>
     length (outputs_list out) = 2 \<and>
     map (\<lambda>t. t_name (tensor_heap graph' t)) (outputs_list out) = [''P-V-7-TopK-0'', ''P-V-7-TopK-1''] \<and>
     length (g_nodes graph') = 1"
    using len by simp
  show ?thesis
    apply (rule conjI [OF h])
    apply (rule exI [of _ "outputs_list out"])
    apply (rule exI [of _ graph'])
    apply (rule body)
    done
qed

section \<open>The constructors and the example graph\<close>

lemma gs_Graph_fields:
  "next_tensor gs_Graph = 0" "next_node gs_Graph = 0"
  "g_nodes gs_Graph = []" "g_inputs gs_Graph = []" "g_outputs gs_Graph = []"
  by (simp_all add: gs_Graph_def)

lemma gs_Variable_fields:
  "fst (gs_Variable st name dtype shape) = next_tensor st"
  "next_tensor (snd (gs_Variable st name dtype shape)) = Suc (next_tensor st)"
  "tensor_heap (snd (gs_Variable st name dtype shape)) =
     (tensor_heap st)(next_tensor st := \<lparr>t_name = name, t_dtype = dtype, t_shape = shape,
        t_is_constant = False, t_inputs = [], t_outputs = []\<rparr>)"
  "node_heap (snd (gs_Variable st name dtype shape)) = node_heap st"
  "next_node (snd (gs_Variable st name dtype shape)) = next_node st"
  "g_nodes (snd (gs_Variable st name dtype shape)) = g_nodes st"
  "g_inputs (snd (gs_Variable st name dtype shape)) = g_inputs st"
  "g_outputs (snd (gs_Variable st name dtype shape)) = g_outputs st"
  by (simp_all add: gs_Variable_def)

lemma gs_Constant_fields:
  "fst (gs_Constant st name dtype shape) = next_tensor st"
  "next_tensor (snd (gs_Constant st name dtype shape)) = Suc (next_tensor st)"
  "tensor_heap (snd (gs_Constant st name dtype shape)) =
     (tensor_heap st)(next_tensor st := \<lparr>t_name = name, t_dtype = dtype, t_shape = shape,
        t_is_constant = True, t_inputs = [], t_outputs = []\<rparr>)"
  "node_heap (snd (gs_Constant st name dtype shape)) = node_heap st"
  "next_node (snd (gs_Constant st name dtype shape)) = next_node st"
  "g_nodes (snd (gs_Constant st name dtype shape)) = g_nodes st"
  "g_inputs (snd (gs_Constant st name dtype shape)) = g_inputs st"
  "g_outputs (snd (gs_Constant st name dtype shape)) = g_outputs st"
  by (simp_all add: gs_Constant_def)

lemma fold_add_consumer_links:
  "t_outputs (tensor_heap (fold (add_consumer nd) ts st) r) =
     t_outputs (tensor_heap st r) @ replicate (count_list ts r) nd"
  "t_inputs (tensor_heap (fold (add_consumer nd) ts st) r) = t_inputs (tensor_heap st r)"
  by (induction ts arbitrary: st; simp add: add_consumer_def replicate_app_Cons_same)+

lemma fold_add_producer_links:
  "t_inputs (tensor_heap (fold (add_producer nd) ts st) r) =
     t_inputs (tensor_heap st r) @ replicate (count_list ts r) nd"
  "t_outputs (tensor_heap (fold (add_producer nd) ts st) r) = t_outputs (tensor_heap st r)"
  by (induction ts arbitrary: st; simp add: add_producer_def replicate_app_Cons_same)+

lemma gs_Node_links:
  "t_outputs (tensor_heap (snd (gs_Node st op name ins outs attrs)) r) =
     t_outputs (tensor_heap st r) @ replicate (count_list ins r) (next_node st)"
  "t_inputs (tensor_heap (snd (gs_Node st op name ins outs attrs)) r) =
     t_inputs (tensor_heap st r) @ replicate (count_list outs r) (next_node st)"
  by (simp_all add: gs_Node_def Let_def fold_add_consumer_links fold_add_producer_links)

lemma example_graph_fields:
  "g_nodes example_graph = [0, 1]"
  "g_inputs example_graph = [0]"
  "g_outputs example_graph = [2]"
  "node_heap example_graph 0 =
     \<lparr>n_op = ''Conv'', n_name = ''Conv'', n_attrs = [], n_inputs = [0], n_outputs = [1]\<rparr>"
  "node_heap example_graph (Suc 0) =
     \<lparr>n_op = ''Relu'', n_name = ''Relu'', n_attrs = [], n_inputs = [1], n_outputs = [2]\<rparr>"
  "t_outputs (tensor_heap example_graph (Suc 0)) = [1]"
  "t_dtype (tensor_heap example_graph (Suc 0)) = Int64"
  by (simp_all add: example_graph_def Let_def split_beta gs_Graph_fields gs_Variable_fields
        gs_Node_fields gs_Node_links)

section \<open>What add_node changes\<close>

lemma fold_add_consumer_heap:
  "tensor_heap (fold (add_consumer nd) ts st) r =
     (tensor_heap st r)\<lparr>t_outputs := t_outputs (tensor_heap st r) @ replicate (count_list ts r) nd\<rparr>"
  by (induction ts arbitrary: st) (simp_all add: add_consumer_def replicate_app_Cons_same)

lemma fold_add_producer_heap:
  "tensor_heap (fold (add_producer nd) ts st) r =
     (tensor_heap st r)\<lparr>t_inputs := t_inputs (tensor_heap st r) @ replicate (count_list ts r) nd\<rparr>"
  by (induction ts arbitrary: st) (simp_all add: add_producer_def replicate_app_Cons_same)

lemma gs_Node_heap:
  "tensor_heap (snd (gs_Node st op name ins outs attrs)) r =
     (tensor_heap st r)
       \<lparr>t_inputs := t_inputs (tensor_heap st r) @ replicate (count_list outs r) (next_node st),
        t_outputs := t_outputs (tensor_heap st r) @ replicate (count_list ins r) (next_node st)\<rparr>"
  by (simp add: gs_Node_def Let_def fold_add_consumer_heap fold_add_producer_heap)

lemma add_node_loop_other:
  "r < next_tensor st \<or> next_tensor st + length is \<le> r \<Longrightarrow>
   tensor_heap (snd (add_node_loop p k ty s dts shs is acc st)) r = tensor_heap st r"
  by (induction "is" arbitrary: acc st) (auto simp add: gs_Variable_def split_beta)

lemma add_node_body_other:
  assumes "r \<notin> set [next_tensor st ..< next_tensor st + length dts]"
  shows "tensor_heap (snd (add_node_body st ty ins at dts shs p s k)) r =
           (tensor_heap st r)
             \<lparr>t_outputs := t_outputs (tensor_heap st r) @ replicate (count_list ins r) (next_node st)\<rparr>"
proof -
  from assms have "r < next_tensor st \<or> next_tensor st + length [0..<length dts] \<le> r" by auto
  then have loop: "tensor_heap (snd (add_node_loop p k ty s dts shs [0..<length dts] [] st)) r =
      tensor_heap st r"
    by (rule add_node_loop_other)
  from assms have "count_list [next_tensor st ..< next_tensor st + length dts] r = 0"
    by simp
  with loop show ?thesis
    by (simp add: add_node_body_def Let_def split_beta gs_Node_heap gs_Node_fields
          add_node_loop_fst add_node_loop_frame)
qed

lemma example_graph_store:
  "next_node example_graph = 2"
  "next_tensor example_graph = 3"
  "tensor_heap example_graph 2 =
     \<lparr>t_name = ''z'', t_dtype = Float16, t_shape = PyList [PyStr ''B''], t_is_constant = False,
      t_inputs = [1], t_outputs = []\<rparr>"
  by (simp_all add: example_graph_def Let_def split_beta gs_Graph_fields gs_Variable_fields
        gs_Node_fields gs_Node_heap)

text \<open>
  Claim C9. A call of \<open>add_node\<close> that returns changes the graph only by appending one
  node to its nodes. The declared inputs and the declared outputs are unchanged, and so
  is every node object that existed. The appended address is a node created by the
  call, with the given type, inputs and attributes and with the returned tensors as its
  outputs. The returned tensors are exactly the tensors created by the call; every
  other tensor keeps its name, its element type, its shape and its producers, and gains
  the new node as a consumer once for each time it occurs in the input list, as the
  node constructor of the library registers it.
\<close>

theorem add_node_appends_only:
  assumes "add_node graph node_type input_list attribution datatype_list shape_list prefix suffix number =
             (Inr (out, n'), graph')"
  shows "g_nodes graph' = g_nodes graph @ [next_node graph] \<and>
         g_inputs graph' = g_inputs graph \<and>
         g_outputs graph' = g_outputs graph \<and>
         (\<forall>nd. nd \<noteq> next_node graph \<longrightarrow> node_heap graph' nd = node_heap graph nd) \<and>
         next_node graph' = Suc (next_node graph) \<and>
         node_heap graph' (next_node graph) =
           \<lparr>n_op = node_type, n_name = prefix @ ''-N-'' @ str_int number @ ''-'' @ node_type,
            n_attrs = attribution, n_inputs = input_list, n_outputs = outputs_list out\<rparr> \<and>
         outputs_list out = [next_tensor graph ..< next_tensor graph'] \<and>
         (\<forall>t. t \<notin> set (outputs_list out) \<longrightarrow>
            tensor_heap graph' t =
              (tensor_heap graph t)
                \<lparr>t_outputs := t_outputs (tensor_heap graph t) @
                    replicate (count_list input_list t) (next_node graph)\<rparr>)"
proof -
  from assms obtain dts shs where
    out: "(out, n') = fst (add_node_body graph node_type input_list attribution dts shs prefix suffix number)" and
    graph': "graph' = snd (add_node_body graph node_type input_list attribution dts shs prefix suffix number)"
    by (rule add_node_Inr)
  from out have o: "out = fst (fst (add_node_body graph node_type input_list attribution dts shs prefix suffix number))"
    by (metis fst_conv)
  have l: "outputs_list out = [next_tensor graph ..< next_tensor graph + length dts]"
    unfolding o by (rule outputs_list_body)
  have frame: "g_nodes graph' = g_nodes graph @ [next_node graph] \<and>
      g_inputs graph' = g_inputs graph \<and> g_outputs graph' = g_outputs graph \<and>
      (\<forall>nd. nd \<noteq> next_node graph \<longrightarrow> node_heap graph' nd = node_heap graph nd) \<and>
      next_node graph' = Suc (next_node graph)"
    unfolding graph' by (simp add: add_node_body_frame)
  have node: "node_heap graph' (next_node graph) =
      \<lparr>n_op = node_type, n_name = prefix @ ''-N-'' @ str_int number @ ''-'' @ node_type,
       n_attrs = attribution, n_inputs = input_list, n_outputs = outputs_list out\<rparr>"
    unfolding graph' l by (simp add: add_node_body_frame node_name_of_def)
  have new: "outputs_list out = [next_tensor graph ..< next_tensor graph']"
    unfolding graph' l by (simp add: add_node_body_frame)
  have tensors: "tensor_heap graph' t =
      (tensor_heap graph t)
        \<lparr>t_outputs := t_outputs (tensor_heap graph t) @
            replicate (count_list input_list t) (next_node graph)\<rparr>"
    if "t \<notin> set (outputs_list out)" for t
    using that unfolding graph' l by (rule add_node_body_other)
  from frame node new tensors show ?thesis by blast
qed

theorem add_node_appends_only_witness:
  "\<exists>out n' graph'.
     add_node example_graph ''Relu'' [2] [] (DType Float32) [PyStr ''B''] ''P'' [] 0 =
       (Inr (out, n'), graph') \<and>
     g_nodes example_graph = [0, 1] \<and> g_nodes graph' = [0, 1, 2] \<and>
     g_inputs graph' = [0] \<and> g_outputs graph' = [2] \<and>
     node_heap graph' 0 = node_heap example_graph 0 \<and>
     node_heap graph' 1 = node_heap example_graph 1 \<and>
     next_node graph' = 3 \<and>
     node_heap graph' 2 =
       \<lparr>n_op = ''Relu'', n_name = ''P-N-0-Relu'', n_attrs = [], n_inputs = [2], n_outputs = [3]\<rparr> \<and>
     outputs_list out = [3] \<and>
     tensor_heap graph' 2 =
       \<lparr>t_name = ''z'', t_dtype = Float16, t_shape = PyList [PyStr ''B''], t_is_constant = False,
        t_inputs = [1], t_outputs = [2]\<rparr>"
proof -
  let ?B = "add_node_body example_graph ''Relu'' [2] [] [Float32] [PyList [PyStr ''B'']] ''P'' [] 0"
  have h: "add_node example_graph ''Relu'' [2] [] (DType Float32) [PyStr ''B''] ''P'' [] 0 =
      (Inr (fst (fst ?B), snd (fst ?B)), snd ?B)"
    by (simp add: add_node_DType)
  note c = add_node_appends_only [OF h]
  from c have g: "g_nodes (snd ?B) = g_nodes example_graph @ [next_node example_graph]"
    and gi: "g_inputs (snd ?B) = g_inputs example_graph"
    and go: "g_outputs (snd ?B) = g_outputs example_graph"
    and nn: "next_node (snd ?B) = Suc (next_node example_graph)"
    and nd: "node_heap (snd ?B) (next_node example_graph) =
      \<lparr>n_op = ''Relu'', n_name = ''P'' @ ''-N-'' @ str_int 0 @ ''-'' @ ''Relu'',
       n_attrs = [], n_inputs = [2], n_outputs = outputs_list (fst (fst ?B))\<rparr>"
    and l: "outputs_list (fst (fst ?B)) = [next_tensor example_graph ..< next_tensor (snd ?B)]"
    by blast+
  from c have ct: "\<forall>t. t \<notin> set (outputs_list (fst (fst ?B))) \<longrightarrow>
      tensor_heap (snd ?B) t =
        (tensor_heap example_graph t)
          \<lparr>t_outputs := t_outputs (tensor_heap example_graph t) @
              replicate (count_list [2] t) (next_node example_graph)\<rparr>"
    and cn: "\<forall>nd. nd \<noteq> next_node example_graph \<longrightarrow>
      node_heap (snd ?B) nd = node_heap example_graph nd"
    by blast+
  note t = ct [THEN spec, of 2]
  note n0 = cn [THEN spec, of 0]
  note n1 = cn [THEN spec, of 1]
  have nt: "next_tensor (snd ?B) = 4"
    by (simp add: add_node_body_frame example_graph_store)
  from l have l3: "outputs_list (fst (fst ?B)) = [3]"
    by (simp add: nt example_graph_store upt_conv_Cons)
  from g have b1: "g_nodes (snd ?B) = [0, 1, 2]"
    by (simp add: example_graph_fields example_graph_store)
  from gi have b2: "g_inputs (snd ?B) = [0]" by (simp add: example_graph_fields)
  from go have b3: "g_outputs (snd ?B) = [2]" by (simp add: example_graph_fields)
  from n0 have b4: "node_heap (snd ?B) 0 = node_heap example_graph 0"
    by (simp add: example_graph_store)
  from n1 have b5: "node_heap (snd ?B) 1 = node_heap example_graph 1"
    by (simp add: example_graph_store)
  from nn have b6: "next_node (snd ?B) = 3" by (simp add: example_graph_store)
  from nd have b7: "node_heap (snd ?B) 2 =
       \<lparr>n_op = ''Relu'', n_name = ''P-N-0-Relu'', n_attrs = [], n_inputs = [2], n_outputs = [3]\<rparr>"
    by (simp add: example_graph_store l3 str_int_zero)
  from t have b8: "tensor_heap (snd ?B) 2 =
       \<lparr>t_name = ''z'', t_dtype = Float16, t_shape = PyList [PyStr ''B''], t_is_constant = False,
        t_inputs = [1], t_outputs = [2]\<rparr>"
    by (simp add: l3 example_graph_store)
  have b0: "g_nodes example_graph = [0, 1]" by (simp add: example_graph_fields)
  note body = conjI [OF b0 conjI [OF b1 conjI [OF b2 conjI [OF b3 conjI [OF b4 conjI [OF b5
    conjI [OF b6 conjI [OF b7 conjI [OF l3 b8]]]]]]]]]
  show ?thesis
    apply (rule exI [of _ "fst (fst ?B)"])
    apply (rule exI [of _ "snd (fst ?B)"])
    apply (rule exI [of _ "snd ?B"])
    apply (rule conjI [OF h body])
    done
qed

section \<open>Properties of find_son_node\<close>

lemma find_son_loop_None:
  "find_son_loop condition xs st = None \<longleftrightarrow> (\<forall>nd \<in> set xs. \<not> condition st nd)"
  by (induction xs) auto

lemma find_son_loop_Some:
  "find_son_loop condition xs st = Some nd \<longleftrightarrow>
     (\<exists>i < length xs. xs ! i = nd \<and> condition st nd \<and> (\<forall>j < i. \<not> condition st (xs ! j)))"
proof (induction xs)
  case Nil
  show ?case by simp
next
  case (Cons x xs)
  show ?case
  proof (cases "condition st x")
    case True
    have "(\<exists>i < length (x # xs). (x # xs) ! i = nd \<and> condition st nd \<and>
             (\<forall>j < i. \<not> condition st ((x # xs) ! j))) \<longleftrightarrow> x = nd"
    proof
      assume "\<exists>i < length (x # xs). (x # xs) ! i = nd \<and> condition st nd \<and>
             (\<forall>j < i. \<not> condition st ((x # xs) ! j))"
      then obtain i where i: "(x # xs) ! i = nd" "\<forall>j < i. \<not> condition st ((x # xs) ! j)"
        by blast
      with True have "i = 0" by (cases i) auto
      with i show "x = nd" by simp
    next
      assume "x = nd"
      with True show "\<exists>i < length (x # xs). (x # xs) ! i = nd \<and> condition st nd \<and>
             (\<forall>j < i. \<not> condition st ((x # xs) ! j))"
        by (intro exI [of _ 0]) simp
    qed
    with True show ?thesis by simp
  next
    case False
    have "(\<exists>i < length (x # xs). (x # xs) ! i = nd \<and> condition st nd \<and>
             (\<forall>j < i. \<not> condition st ((x # xs) ! j))) \<longleftrightarrow>
          (\<exists>i < length xs. xs ! i = nd \<and> condition st nd \<and> (\<forall>j < i. \<not> condition st (xs ! j)))"
      (is "?L \<longleftrightarrow> ?R")
    proof
      assume ?L
      then obtain i where i: "i < length (x # xs)" "(x # xs) ! i = nd" "condition st nd"
        "\<forall>j < i. \<not> condition st ((x # xs) ! j)"
        by blast
      with False obtain i' where i': "i = Suc i'" by (cases i) auto
      with i have "i' < length xs" "xs ! i' = nd" by simp_all
      moreover from i(4) i' have "\<forall>j < i'. \<not> condition st (xs ! j)" by auto
      ultimately show ?R using i(3) by blast
    next
      assume ?R
      then obtain i where i: "i < length xs" "xs ! i = nd" "condition st nd"
        "\<forall>j < i. \<not> condition st (xs ! j)"
        by blast
      have "\<forall>j < Suc i. \<not> condition st ((x # xs) ! j)"
      proof (intro allI impI)
        fix j assume "j < Suc i"
        with False i(4) show "\<not> condition st ((x # xs) ! j)" by (cases j) auto
      qed
      with i show ?L by (intro exI [of _ "Suc i"]) simp
    qed
    with False Cons.IH show ?thesis by simp
  qed
qed

text \<open>
  Claim C10. For every tensor and every condition, \<open>find_son_node\<close> leaves the store as
  it is; it returns \<open>None\<close> exactly when no consumer of the tensor meets the condition,
  and it returns a node exactly when that node is the first consumer, in the order of
  the consumers of the tensor, that meets the condition.
\<close>

theorem find_son_node_first:
  "snd (find_son_node st tensor condition) = st \<and>
   (fst (find_son_node st tensor condition) = None \<longleftrightarrow>
      (\<forall>nd \<in> set (t_outputs (tensor_heap st tensor)). \<not> condition st nd)) \<and>
   (\<forall>nd. fst (find_son_node st tensor condition) = Some nd \<longleftrightarrow>
      (\<exists>i < length (t_outputs (tensor_heap st tensor)).
         t_outputs (tensor_heap st tensor) ! i = nd \<and> condition st nd \<and>
         (\<forall>j < i. \<not> condition st (t_outputs (tensor_heap st tensor) ! j))))"
  by (simp add: find_son_node_def find_son_loop_None find_son_loop_Some)

theorem find_son_node_first_witness:
  "fst (find_son_node example_graph 1 (\<lambda>st nd. n_op (node_heap st nd) = ''Relu'')) = Some 1 \<and>
   fst (find_son_node example_graph 1 (\<lambda>st nd. n_op (node_heap st nd) = ''Conv'')) = None \<and>
   snd (find_son_node example_graph 1 (\<lambda>st nd. n_op (node_heap st nd) = ''Relu'')) = example_graph"
  using find_son_node_first [of example_graph 1 "\<lambda>st nd. n_op (node_heap st nd) = ''Relu''"]
    find_son_node_first [of example_graph 1 "\<lambda>st nd. n_op (node_heap st nd) = ''Conv''"]
  by (simp add: example_graph_fields)

section \<open>Properties of mark_graph_output\<close>

text \<open>
  Claim C6. Whenever \<open>mark_graph_output\<close> returns, the value it returns is the number of
  names in \<open>lNode\<close>, whatever the other arguments and however many of the names are names
  of nodes of the graph.
\<close>

theorem mark_graph_output_count:
  assumes "mark_graph_output graph lNode bMarkOutput bMarkInput lMarkOutput lMarkInput bRemoveOldOutput =
             (Inr r, graph')"
  shows "r = int (length lNode)"
  using assms
  by (auto simp add: mark_graph_output_def Let_def split: prod.splits sum.splits)

lemma example_mark_two_names:
  "fst (mark_graph_output example_graph [''Conv'', ''Missing''] True False None None True) = Inr 2"
  by (simp add: mark_graph_output_def example_graph_fields select_indices_def py_index_def
        set_dtype_def cleanup_toposort_def cleanup_def toposort_def node_produces_def depends_on_def)

theorem mark_graph_output_count_witness:
  "\<exists>graph'.
     mark_graph_output example_graph [''Conv'', ''Missing''] True False None None True = (Inr 2, graph') \<and>
     (2::int) = int (length [''Conv'', ''Missing''])"
proof -
  let ?r = "mark_graph_output example_graph [''Conv'', ''Missing''] True False None None True"
  have h: "?r = (Inr 2, snd ?r)"
    using example_mark_two_names by (simp add: prod_eq_iff)
  from mark_graph_output_count [OF h] have "(2::int) = int (length [''Conv'', ''Missing''])" .
  with h show ?thesis by (intro exI [of _ "snd ?r"] conjI)
qed

lemma py_index_nat: "j < length xs \<Longrightarrow> py_index xs (int j) = Inr (xs ! j)"
  by (simp add: py_index_def)

lemma mark_output_loop_frame:
  "node_heap (snd (mark_output_loop nd idx st)) = node_heap st"
  "g_nodes (snd (mark_output_loop nd idx st)) = g_nodes st"
  "g_inputs (snd (mark_output_loop nd idx st)) = g_inputs st"
  by (induction nd idx st rule: mark_output_loop.induct;
      simp add: set_dtype_def split: sum.splits)+

lemma mark_output_loop_keeps_float:
  "t_dtype (tensor_heap st t) = Float32 \<Longrightarrow>
   t_dtype (tensor_heap (snd (mark_output_loop nd idx st)) t) = Float32"
  by (induction nd idx st rule: mark_output_loop.induct)
     (simp_all add: set_dtype_def split: sum.splits)

lemma mark_output_loop_range_all:
  assumes "\<forall>j \<in> set js. j < length (n_outputs (node_heap st nd))"
  shows "fst (mark_output_loop nd (map int js) st) = Inr () \<and>
         g_outputs (snd (mark_output_loop nd (map int js) st)) =
           g_outputs st @ map (\<lambda>j. n_outputs (node_heap st nd) ! j) js \<and>
         (\<forall>j \<in> set js.
           t_dtype (tensor_heap (snd (mark_output_loop nd (map int js) st))
             (n_outputs (node_heap st nd) ! j)) = Float32)"
  using assms
proof (induction js arbitrary: st)
  case Nil
  show ?case by simp
next
  case (Cons j js)
  let ?t = "n_outputs (node_heap st nd) ! j"
  let ?st = "set_dtype ?t Float32 (st\<lparr>g_outputs := g_outputs st @ [?t]\<rparr>)"
  have nh: "node_heap ?st = node_heap st" by (simp add: set_dtype_def)
  have go: "g_outputs ?st = g_outputs st @ [?t]" by (simp add: set_dtype_def)
  from Cons.prems have step:
    "mark_output_loop nd (map int (j # js)) st = mark_output_loop nd (map int js) ?st"
    by (simp add: py_index_nat)
  from Cons.prems have "\<forall>j \<in> set js. j < length (n_outputs (node_heap ?st nd))"
    by (simp add: nh)
  note ih = Cons.IH [OF this, unfolded nh]
  have "t_dtype (tensor_heap ?st ?t) = Float32" by (simp add: set_dtype_def)
  then have first: "t_dtype (tensor_heap (snd (mark_output_loop nd (map int js) ?st)) ?t) = Float32"
    by (rule mark_output_loop_keeps_float)
  from ih first show ?case
    unfolding step by (simp add: go)
qed

lemma mark_output_loop_range:
  assumes "\<forall>j \<in> set js. j < length (n_outputs (node_heap st nd))"
  shows "fst (mark_output_loop nd (map int js) st) = Inr ()"
    and "g_outputs (snd (mark_output_loop nd (map int js) st)) =
           g_outputs st @ map (\<lambda>j. n_outputs (node_heap st nd) ! j) js"
    and "\<forall>j \<in> set js.
           t_dtype (tensor_heap (snd (mark_output_loop nd (map int js) st))
             (n_outputs (node_heap st nd) ! j)) = Float32"
  using mark_output_loop_range_all [OF assms] by blast+

lemma mark_nodes_loop_skip:
  assumes "\<forall>x \<in> set xs. n_name (node_heap st x) \<notin> set lNode"
  shows "mark_nodes_loop lNode bMarkOutput bMarkInput (xs @ rest) lMarkOutput lMarkInput st =
         mark_nodes_loop lNode bMarkOutput bMarkInput rest lMarkOutput lMarkInput st"
  using assms by (induction xs) simp_all

lemma mark_nodes_loop_none:
  assumes "\<forall>x \<in> set xs. n_name (node_heap st x) \<notin> set lNode"
  shows "mark_nodes_loop lNode bMarkOutput bMarkInput xs lMarkOutput lMarkInput st = (Inr (), st)"
  using mark_nodes_loop_skip [OF assms, of bMarkOutput bMarkInput "[]" lMarkOutput lMarkInput]
  by simp

lemma cleanup_toposort_frame:
  "g_outputs (snd (cleanup_toposort st)) = g_outputs st"
  "g_inputs (snd (cleanup_toposort st)) = g_inputs st"
  "tensor_heap (snd (cleanup_toposort st)) = tensor_heap st"
  "node_heap (snd (cleanup_toposort st)) = node_heap st"
  "fst (cleanup_toposort st) = Inr () \<or> fst (cleanup_toposort st) = Inl CycleError"
  by (simp_all add: cleanup_toposort_def toposort_def cleanup_def split: option.splits)

text \<open>
  Claim C7. On a graph where exactly one entry of \<open>graph.nodes\<close> is named \<open>Conv\<close>, the
  call \<open>mark_graph_output(graph, ["Conv"])\<close>, which removes the old outputs and takes the
  other arguments at their defaults, leaves a graph whose declared outputs are the
  outputs of that node in their order, each of them now of type \<open>float32\<close> whatever its
  type was. The call returns 1, unless the topological sort of the library finds a
  cycle; the outputs and their types are set before the library is called.
\<close>

theorem mark_graph_output_conv:
  assumes "g_nodes graph = before @ [nd] @ after"
    and "n_name (node_heap graph nd) = ''Conv''"
    and "\<forall>x \<in> set before \<union> set after. n_name (node_heap graph x) \<noteq> ''Conv''"
  shows "(fst (mark_graph_output graph [''Conv''] True False None None True) = Inr 1 \<or>
          fst (mark_graph_output graph [''Conv''] True False None None True) = Inl CycleError) \<and>
         g_outputs (snd (mark_graph_output graph [''Conv''] True False None None True)) =
           n_outputs (node_heap graph nd) \<and>
         (\<forall>t \<in> set (n_outputs (node_heap graph nd)).
            t_dtype (tensor_heap (snd (mark_graph_output graph [''Conv''] True False None None True)) t) =
              Float32)"
proof -
  let ?st0 = "graph\<lparr>g_outputs := []\<rparr>"
  let ?outs = "n_outputs (node_heap graph nd)"
  let ?idx = "map int [0..<length ?outs]"
  let ?st1 = "snd (mark_output_loop nd ?idx ?st0)"
  have range: "\<forall>j \<in> set [0..<length ?outs]. j < length (n_outputs (node_heap ?st0 nd))"
    by simp
  have ok: "fst (mark_output_loop nd ?idx ?st0) = Inr ()"
    using mark_output_loop_range(1) [OF range] by simp
  have outs: "g_outputs ?st1 = ?outs"
    using mark_output_loop_range(2) [OF range] by (simp add: map_nth)
  have float: "\<forall>t \<in> set ?outs. t_dtype (tensor_heap ?st1 t) = Float32"
  proof
    fix t assume "t \<in> set ?outs"
    then obtain j where "j < length ?outs" "?outs ! j = t" by (auto simp add: in_set_conv_nth)
    with mark_output_loop_range(3) [OF range] show "t_dtype (tensor_heap ?st1 t) = Float32"
      by auto
  qed
  have before: "\<forall>x \<in> set before. n_name (node_heap ?st0 x) \<notin> set [''Conv'']"
    using assms(3) by simp
  have after: "\<forall>x \<in> set after. n_name (node_heap ?st1 x) \<notin> set [''Conv'']"
    using assms(3) by (simp add: mark_output_loop_frame)
  have "mark_nodes_loop [''Conv''] True False (g_nodes ?st0) None None ?st0 =
        mark_nodes_loop [''Conv''] True False (nd # after) None None ?st0"
    using mark_nodes_loop_skip [OF before] by (simp add: assms(1))
  also have "\<dots> = mark_nodes_loop [''Conv''] True False after (Some ?idx) None ?st1"
    using ok assms(2) by (simp add: select_indices_def split_beta)
  also have "\<dots> = (Inr (), ?st1)"
    using after by (rule mark_nodes_loop_none)
  finally have loop: "mark_nodes_loop [''Conv''] True False (g_nodes ?st0) None None ?st0 =
      (Inr (), ?st1)" .
  have call: "mark_graph_output graph [''Conv''] True False None None True =
      (case cleanup_toposort ?st1 of
         (Inl e, st2) \<Rightarrow> (Inl e, st2)
       | (Inr _, st2) \<Rightarrow> (Inr 1, st2))"
    using loop by (simp add: mark_graph_output_def split: prod.splits sum.splits)
  have s: "snd (mark_graph_output graph [''Conv''] True False None None True) =
      snd (cleanup_toposort ?st1)"
    unfolding call by (simp split: prod.splits sum.splits)
  have f: "fst (mark_graph_output graph [''Conv''] True False None None True) = Inr 1 \<or>
      fst (mark_graph_output graph [''Conv''] True False None None True) = Inl CycleError"
    unfolding call using cleanup_toposort_frame(5) [of ?st1]
    by (auto split: prod.splits sum.splits)
  from f outs float show ?thesis
    unfolding s by (simp add: cleanup_toposort_frame)
qed

lemma example_mark_conv:
  "fst (mark_graph_output example_graph [''Conv''] True False None None True) = Inr 1"
  by (simp add: mark_graph_output_def example_graph_fields select_indices_def py_index_def
        set_dtype_def cleanup_toposort_def cleanup_def toposort_def node_produces_def depends_on_def)

theorem mark_graph_output_conv_witness:
  "g_nodes example_graph = [] @ [0] @ [1] \<and>
   n_name (node_heap example_graph 0) = ''Conv'' \<and>
   n_name (node_heap example_graph 1) = ''Relu'' \<and>
   t_dtype (tensor_heap example_graph 1) = Int64 \<and>
   fst (mark_graph_output example_graph [''Conv''] True False None None True) = Inr 1 \<and>
   g_outputs (snd (mark_graph_output example_graph [''Conv''] True False None None True)) = [1] \<and>
   t_dtype (tensor_heap (snd (mark_graph_output example_graph [''Conv''] True False None None True)) 1) =
     Float32"
proof -
  have h1: "g_nodes example_graph = [] @ [0] @ [1]" by (simp add: example_graph_fields)
  have h2: "n_name (node_heap example_graph 0) = ''Conv''" by (simp add: example_graph_fields)
  have h3: "\<forall>x \<in> set [] \<union> set [1]. n_name (node_heap example_graph x) \<noteq> ''Conv''"
    by (simp add: example_graph_fields)
  have h4: "t_dtype (tensor_heap example_graph 1) = Int64" by (simp add: example_graph_fields)
  from mark_graph_output_conv [OF h1 h2 h3] h1 h2 h3 h4 example_mark_conv show ?thesis
    by (simp add: example_graph_fields)
qed

section \<open>Properties of build_mnist_network_onnx\<close>

text \<open>
  The graph of the builder is a chain: node \<open>k\<close> produces tensor \<open>10 + k\<close> and consumes
  the tensor of the node before it. On such a graph, with the outputs of the nodes 12
  and 14 declared, cleanup removes nothing and the sort keeps the order.
\<close>

lemma chain_cleanup:
  assumes "g_nodes G = [0, Suc 0, 2, 3, 4, 5, 6, 7, 8, 9, 10, 11, 12, 13, 14]"
    and "g_outputs G = [22, 24]"
    and "n_inputs (node_heap G 0) = [0, Suc 0, 2]"
    and "n_outputs (node_heap G 0) = [10]"
    and "n_inputs (node_heap G (Suc 0)) = [10]"
    and "n_outputs (node_heap G (Suc 0)) = [11]"
    and "n_inputs (node_heap G 2) = [11]"
    and "n_outputs (node_heap G 2) = [12]"
    and "n_inputs (node_heap G 3) = [12, 3, 4]"
    and "n_outputs (node_heap G 3) = [13]"
    and "n_inputs (node_heap G 4) = [13]"
    and "n_outputs (node_heap G 4) = [14]"
    and "n_inputs (node_heap G 5) = [14]"
    and "n_outputs (node_heap G 5) = [15]"
    and "n_inputs (node_heap G 6) = [15]"
    and "n_outputs (node_heap G 6) = [16]"
    and "n_inputs (node_heap G 7) = [16, 5]"
    and "n_outputs (node_heap G 7) = [17]"
    and "n_inputs (node_heap G 8) = [17, 6]"
    and "n_outputs (node_heap G 8) = [18]"
    and "n_inputs (node_heap G 9) = [18, 7]"
    and "n_outputs (node_heap G 9) = [19]"
    and "n_inputs (node_heap G 10) = [19]"
    and "n_outputs (node_heap G 10) = [20]"
    and "n_inputs (node_heap G 11) = [20, 8]"
    and "n_outputs (node_heap G 11) = [21]"
    and "n_inputs (node_heap G 12) = [21, 9]"
    and "n_outputs (node_heap G 12) = [22]"
    and "n_inputs (node_heap G 13) = [22]"
    and "n_outputs (node_heap G 13) = [23]"
    and "n_inputs (node_heap G 14) = [23]"
    and "n_outputs (node_heap G 14) = [24]"
  shows "g_nodes (cleanup G) = g_nodes G"
  using assms
  by (simp add: cleanup_def node_produces_def)

lemma chain_toposort:
  assumes "g_nodes G = [0, Suc 0, 2, 3, 4, 5, 6, 7, 8, 9, 10, 11, 12, 13, 14]"
    and "n_inputs (node_heap G 0) = [0, Suc 0, 2]"
    and "n_outputs (node_heap G 0) = [10]"
    and "n_inputs (node_heap G (Suc 0)) = [10]"
    and "n_outputs (node_heap G (Suc 0)) = [11]"
    and "n_inputs (node_heap G 2) = [11]"
    and "n_outputs (node_heap G 2) = [12]"
    and "n_inputs (node_heap G 3) = [12, 3, 4]"
    and "n_outputs (node_heap G 3) = [13]"
    and "n_inputs (node_heap G 4) = [13]"
    and "n_outputs (node_heap G 4) = [14]"
    and "n_inputs (node_heap G 5) = [14]"
    and "n_outputs (node_heap G 5) = [15]"
    and "n_inputs (node_heap G 6) = [15]"
    and "n_outputs (node_heap G 6) = [16]"
    and "n_inputs (node_heap G 7) = [16, 5]"
    and "n_outputs (node_heap G 7) = [17]"
    and "n_inputs (node_heap G 8) = [17, 6]"
    and "n_outputs (node_heap G 8) = [18]"
    and "n_inputs (node_heap G 9) = [18, 7]"
    and "n_outputs (node_heap G 9) = [19]"
    and "n_inputs (node_heap G 10) = [19]"
    and "n_outputs (node_heap G 10) = [20]"
    and "n_inputs (node_heap G 11) = [20, 8]"
    and "n_outputs (node_heap G 11) = [21]"
    and "n_inputs (node_heap G 12) = [21, 9]"
    and "n_outputs (node_heap G 12) = [22]"
    and "n_inputs (node_heap G 13) = [22]"
    and "n_outputs (node_heap G 13) = [23]"
    and "n_inputs (node_heap G 14) = [23]"
    and "n_outputs (node_heap G 14) = [24]"
  shows "toposort G = (Inr (), G)"
  using assms
  by (simp add: toposort_def depends_on_def node_produces_def)

lemma chain_cleanup_toposort:
  assumes "g_nodes G = [0, Suc 0, 2, 3, 4, 5, 6, 7, 8, 9, 10, 11, 12, 13, 14]"
    and "g_outputs G = [22, 24]"
    and "n_inputs (node_heap G 0) = [0, Suc 0, 2]"
    and "n_outputs (node_heap G 0) = [10]"
    and "n_inputs (node_heap G (Suc 0)) = [10]"
    and "n_outputs (node_heap G (Suc 0)) = [11]"
    and "n_inputs (node_heap G 2) = [11]"
    and "n_outputs (node_heap G 2) = [12]"
    and "n_inputs (node_heap G 3) = [12, 3, 4]"
    and "n_outputs (node_heap G 3) = [13]"
    and "n_inputs (node_heap G 4) = [13]"
    and "n_outputs (node_heap G 4) = [14]"
    and "n_inputs (node_heap G 5) = [14]"
    and "n_outputs (node_heap G 5) = [15]"
    and "n_inputs (node_heap G 6) = [15]"
    and "n_outputs (node_heap G 6) = [16]"
    and "n_inputs (node_heap G 7) = [16, 5]"
    and "n_outputs (node_heap G 7) = [17]"
    and "n_inputs (node_heap G 8) = [17, 6]"
    and "n_outputs (node_heap G 8) = [18]"
    and "n_inputs (node_heap G 9) = [18, 7]"
    and "n_outputs (node_heap G 9) = [19]"
    and "n_inputs (node_heap G 10) = [19]"
    and "n_outputs (node_heap G 10) = [20]"
    and "n_inputs (node_heap G 11) = [20, 8]"
    and "n_outputs (node_heap G 11) = [21]"
    and "n_inputs (node_heap G 12) = [21, 9]"
    and "n_outputs (node_heap G 12) = [22]"
    and "n_inputs (node_heap G 13) = [22]"
    and "n_outputs (node_heap G 13) = [23]"
    and "n_inputs (node_heap G 14) = [23]"
    and "n_outputs (node_heap G 14) = [24]"
  shows "fst (cleanup_toposort G) = Inr () \<and> g_nodes (snd (cleanup_toposort G)) = g_nodes G"
proof -
  have c: "cleanup G = G"
    using chain_cleanup [OF assms] by (simp add: cleanup_def)
  show ?thesis
    unfolding cleanup_toposort_def c using chain_toposort [OF assms(1) assms(3-)] by simp
qed

lemma bind_Inr: "bind (Inr x, st) f = f x st"
  by (simp add: bind_def)

lemma add_node_tensor_single:
  "add_node_tensor st ty ins at (DType dt) shs p s k =
     (Inr (next_tensor st, k + 1), snd (add_node_body st ty ins at [dt] [PyList shs] p s k))"
  by (simp add: add_node_tensor_def add_node_DType add_node_body_fst bind_Inr)

lemma add_node_body_single:
  "next_tensor (snd (add_node_body st ty ins at [dt] [sh] p s k)) = Suc (next_tensor st)"
  "node_heap (snd (add_node_body st ty ins at [dt] [sh] p s k)) =
     (node_heap st)(next_node st :=
        \<lparr>n_op = ty, n_name = node_name_of p k ty, n_attrs = at, n_inputs = ins,
         n_outputs = [next_tensor st]\<rparr>)"
  "t_name (tensor_heap (snd (add_node_body st ty ins at [dt] [sh] p s k)) r) =
     (if r = next_tensor st then tensor_name_of p k ty s 0 else t_name (tensor_heap st r))"
  "t_dtype (tensor_heap (snd (add_node_body st ty ins at [dt] [sh] p s k)) r) =
     (if r = next_tensor st then dt else t_dtype (tensor_heap st r))"
  by (simp_all add: add_node_body_def Let_def split_beta gs_Node_fields gs_Variable_fields)

lemma mnist_names:
  "tensor_name_of ''MNIST'' 12 ''Add'' [] 0 = ''MNIST-V-12-Add-0''"
  "tensor_name_of ''MNIST'' 14 ''ArgMax'' [] 0 = ''MNIST-V-14-ArgMax-0''"
  by (simp_all add: tensor_name_of_def str_int_def str_nat.simps [of 12] str_nat.simps [of 14]
        str_nat.simps [of "Suc 0"] str_nat.simps [of 0] digit_char_def)

lemma build_mnist_state_ex:
  "\<exists>G. build_mnist_network_onnx = cleanup_toposort G \<and>
       (g_nodes G = [0, Suc 0, 2, 3, 4, 5, 6, 7, 8, 9, 10, 11, 12, 13, 14]) \<and>
       (g_outputs G = [22, 24]) \<and>
       (n_inputs (node_heap G 0) = [0, Suc 0, 2]) \<and>
       (n_outputs (node_heap G 0) = [10]) \<and>
       (n_inputs (node_heap G (Suc 0)) = [10]) \<and>
       (n_outputs (node_heap G (Suc 0)) = [11]) \<and>
       (n_inputs (node_heap G 2) = [11]) \<and>
       (n_outputs (node_heap G 2) = [12]) \<and>
       (n_inputs (node_heap G 3) = [12, 3, 4]) \<and>
       (n_outputs (node_heap G 3) = [13]) \<and>
       (n_inputs (node_heap G 4) = [13]) \<and>
       (n_outputs (node_heap G 4) = [14]) \<and>
       (n_inputs (node_heap G 5) = [14]) \<and>
       (n_outputs (node_heap G 5) = [15]) \<and>
       (n_inputs (node_heap G 6) = [15]) \<and>
       (n_outputs (node_heap G 6) = [16]) \<and>
       (n_inputs (node_heap G 7) = [16, 5]) \<and>
       (n_outputs (node_heap G 7) = [17]) \<and>
       (n_inputs (node_heap G 8) = [17, 6]) \<and>
       (n_outputs (node_heap G 8) = [18]) \<and>
       (n_inputs (node_heap G 9) = [18, 7]) \<and>
       (n_outputs (node_heap G 9) = [19]) \<and>
       (n_inputs (node_heap G 10) = [19]) \<and>
       (n_outputs (node_heap G 10) = [20]) \<and>
       (n_inputs (node_heap G 11) = [20, 8]) \<and>
       (n_outputs (node_heap G 11) = [21]) \<and>
       (n_inputs (node_heap G 12) = [21, 9]) \<and>
       (n_outputs (node_heap G 12) = [22]) \<and>
       (n_inputs (node_heap G 13) = [22]) \<and>
       (n_outputs (node_heap G 13) = [23]) \<and>
       (n_inputs (node_heap G 14) = [23]) \<and>
       (n_outputs (node_heap G 14) = [24]) \<and>
       (t_name (tensor_heap G 22) = ''MNIST-V-12-Add-0'') \<and>
       (t_name (tensor_heap G 24) = ''MNIST-V-14-ArgMax-0'') \<and>
       (t_dtype (tensor_heap G 22) = Float32) \<and>
       (t_dtype (tensor_heap G 24) = Int64) \<and>
       (map (\<lambda>nd. n_op (node_heap G nd)) (g_nodes G) = [''Conv'', ''Relu'', ''MaxPool'', ''Conv'', ''Relu'', ''MaxPool'', ''Transpose'', ''Reshape'', ''MatMul'', ''Add'', ''Relu'', ''MatMul'', ''Add'', ''Softmax'', ''ArgMax''])"
  apply (simp add: build_mnist_network_onnx_def Let_def split_beta bind_Inr add_node_tensor_single
      gs_Graph_fields gs_Variable_fields gs_Constant_fields add_node_body_frame add_node_body_single)
  apply (rule exI)
  apply (rule conjI)
   apply (rule refl)
  apply (simp add: gs_Graph_fields gs_Variable_fields gs_Constant_fields add_node_body_frame
      add_node_body_single mnist_names)
  done

lemma build_mnist_state:
  obtains G where "build_mnist_network_onnx = cleanup_toposort G"
    and "g_nodes G = [0, Suc 0, 2, 3, 4, 5, 6, 7, 8, 9, 10, 11, 12, 13, 14]"
    and "g_outputs G = [22, 24]"
    and "n_inputs (node_heap G 0) = [0, Suc 0, 2]"
    and "n_outputs (node_heap G 0) = [10]"
    and "n_inputs (node_heap G (Suc 0)) = [10]"
    and "n_outputs (node_heap G (Suc 0)) = [11]"
    and "n_inputs (node_heap G 2) = [11]"
    and "n_outputs (node_heap G 2) = [12]"
    and "n_inputs (node_heap G 3) = [12, 3, 4]"
    and "n_outputs (node_heap G 3) = [13]"
    and "n_inputs (node_heap G 4) = [13]"
    and "n_outputs (node_heap G 4) = [14]"
    and "n_inputs (node_heap G 5) = [14]"
    and "n_outputs (node_heap G 5) = [15]"
    and "n_inputs (node_heap G 6) = [15]"
    and "n_outputs (node_heap G 6) = [16]"
    and "n_inputs (node_heap G 7) = [16, 5]"
    and "n_outputs (node_heap G 7) = [17]"
    and "n_inputs (node_heap G 8) = [17, 6]"
    and "n_outputs (node_heap G 8) = [18]"
    and "n_inputs (node_heap G 9) = [18, 7]"
    and "n_outputs (node_heap G 9) = [19]"
    and "n_inputs (node_heap G 10) = [19]"
    and "n_outputs (node_heap G 10) = [20]"
    and "n_inputs (node_heap G 11) = [20, 8]"
    and "n_outputs (node_heap G 11) = [21]"
    and "n_inputs (node_heap G 12) = [21, 9]"
    and "n_outputs (node_heap G 12) = [22]"
    and "n_inputs (node_heap G 13) = [22]"
    and "n_outputs (node_heap G 13) = [23]"
    and "n_inputs (node_heap G 14) = [23]"
    and "n_outputs (node_heap G 14) = [24]"
    and "t_name (tensor_heap G 22) = ''MNIST-V-12-Add-0''"
    and "t_name (tensor_heap G 24) = ''MNIST-V-14-ArgMax-0''"
    and "t_dtype (tensor_heap G 22) = Float32"
    and "t_dtype (tensor_heap G 24) = Int64"
    and "map (\<lambda>nd. n_op (node_heap G nd)) (g_nodes G) = [''Conv'', ''Relu'', ''MaxPool'', ''Conv'', ''Relu'', ''MaxPool'', ''Transpose'', ''Reshape'', ''MatMul'', ''Add'', ''Relu'', ''MatMul'', ''Add'', ''Softmax'', ''ArgMax'']"
  using build_mnist_state_ex by (elim exE conjE) (rule that; assumption)

text \<open>
  Claim C8. \<open>build_mnist_network_onnx\<close> passes the cleanup and the topological sort
  without an error and yields a graph of exactly 15 nodes, two of them convolutions and
  two of them max-pools; its declared outputs are, in this order, the output of the
  last \<open>Add\<close> node, which is the input of the \<open>Softmax\<close> node (the logits), and the output
  of the \<open>ArgMax\<close> node (the class index).
\<close>

theorem build_mnist_network_onnx_graph:
  "fst build_mnist_network_onnx = Inr () \<and>
   length (g_nodes (snd build_mnist_network_onnx)) = 15 \<and>
   map (\<lambda>nd. n_op (node_heap (snd build_mnist_network_onnx) nd)) (g_nodes (snd build_mnist_network_onnx)) =
     [''Conv'', ''Relu'', ''MaxPool'', ''Conv'', ''Relu'', ''MaxPool'', ''Transpose'', ''Reshape'', ''MatMul'', ''Add'', ''Relu'', ''MatMul'', ''Add'', ''Softmax'', ''ArgMax''] \<and>
   g_outputs (snd build_mnist_network_onnx) =
     n_outputs (node_heap (snd build_mnist_network_onnx) (g_nodes (snd build_mnist_network_onnx) ! 12)) @
     n_outputs (node_heap (snd build_mnist_network_onnx) (g_nodes (snd build_mnist_network_onnx) ! 14)) \<and>
   n_inputs (node_heap (snd build_mnist_network_onnx) (g_nodes (snd build_mnist_network_onnx) ! 13)) =
     n_outputs (node_heap (snd build_mnist_network_onnx) (g_nodes (snd build_mnist_network_onnx) ! 12)) \<and>
   map (\<lambda>t. t_name (tensor_heap (snd build_mnist_network_onnx) t)) (g_outputs (snd build_mnist_network_onnx)) =
     [''MNIST-V-12-Add-0'', ''MNIST-V-14-ArgMax-0''] \<and>
   map (\<lambda>t. t_dtype (tensor_heap (snd build_mnist_network_onnx) t)) (g_outputs (snd build_mnist_network_onnx)) =
     [Float32, Int64]"
proof -
  obtain G where
    build: "build_mnist_network_onnx = cleanup_toposort G"
    and nodes: "g_nodes G = [0, Suc 0, 2, 3, 4, 5, 6, 7, 8, 9, 10, 11, 12, 13, 14]"
    and outs: "g_outputs G = [22, 24]"
    and links: "n_inputs (node_heap G 0) = [0, Suc 0, 2]"
      "n_outputs (node_heap G 0) = [10]"
      "n_inputs (node_heap G (Suc 0)) = [10]"
      "n_outputs (node_heap G (Suc 0)) = [11]"
      "n_inputs (node_heap G 2) = [11]"
      "n_outputs (node_heap G 2) = [12]"
      "n_inputs (node_heap G 3) = [12, 3, 4]"
      "n_outputs (node_heap G 3) = [13]"
      "n_inputs (node_heap G 4) = [13]"
      "n_outputs (node_heap G 4) = [14]"
      "n_inputs (node_heap G 5) = [14]"
      "n_outputs (node_heap G 5) = [15]"
      "n_inputs (node_heap G 6) = [15]"
      "n_outputs (node_heap G 6) = [16]"
      "n_inputs (node_heap G 7) = [16, 5]"
      "n_outputs (node_heap G 7) = [17]"
      "n_inputs (node_heap G 8) = [17, 6]"
      "n_outputs (node_heap G 8) = [18]"
      "n_inputs (node_heap G 9) = [18, 7]"
      "n_outputs (node_heap G 9) = [19]"
      "n_inputs (node_heap G 10) = [19]"
      "n_outputs (node_heap G 10) = [20]"
      "n_inputs (node_heap G 11) = [20, 8]"
      "n_outputs (node_heap G 11) = [21]"
      "n_inputs (node_heap G 12) = [21, 9]"
      "n_outputs (node_heap G 12) = [22]"
      "n_inputs (node_heap G 13) = [22]"
      "n_outputs (node_heap G 13) = [23]"
      "n_inputs (node_heap G 14) = [23]"
      "n_outputs (node_heap G 14) = [24]"
    and tensors: "t_name (tensor_heap G 22) = ''MNIST-V-12-Add-0''"
      "t_name (tensor_heap G 24) = ''MNIST-V-14-ArgMax-0''"
      "t_dtype (tensor_heap G 22) = Float32" "t_dtype (tensor_heap G 24) = Int64"
    and ops: "map (\<lambda>nd. n_op (node_heap G nd)) (g_nodes G) = [''Conv'', ''Relu'', ''MaxPool'', ''Conv'', ''Relu'', ''MaxPool'', ''Transpose'', ''Reshape'', ''MatMul'', ''Add'', ''Relu'', ''MatMul'', ''Add'', ''Softmax'', ''ArgMax'']"
    by (rule build_mnist_state)
  from chain_cleanup_toposort [OF nodes outs links]
  have ok: "fst (cleanup_toposort G) = Inr ()"
    and sorted_nodes: "g_nodes (snd (cleanup_toposort G)) = g_nodes G"
    by blast+
  have n12: "g_nodes G ! 12 = 12" and n13: "g_nodes G ! 13 = 13" and n14: "g_nodes G ! 14 = 14"
    by (simp_all add: nodes)
  have len: "length (g_nodes G) = 15" by (simp add: nodes)
  from ok len ops outs links tensors show ?thesis
    unfolding build sorted_nodes cleanup_toposort_frame n12 n13 n14 by simp
qed

end
